theory Spec2Isabelle
  imports Complex_Main "HOL-Library.Sublist"
begin

section \<open>Strings\<close>

text \<open>
  JavaScript strings are modelled as \<^typ>\<open>string\<close>. Text outside ASCII is carried as its
  UTF-8 bytes; every keyword of the classifier is ASCII, and an ASCII byte never occurs
  inside a multi-byte UTF-8 sequence, so substring tests against keywords are unaffected.
\<close>

definition utf8 :: "nat list \<Rightarrow> string" where
  "utf8 bs = map char_of bs"

text \<open>
  \<open>String.prototype.toLowerCase\<close>, on the ASCII letters. Bytes outside ASCII are left as
  they are: the model does not follow the Unicode case mappings, and so covers the texts
  on which they produce no ASCII letter (all but those with the Kelvin sign or the dotted
  capital I).
\<close>

definition lower_char :: "char \<Rightarrow> char" where
  "lower_char c =
     (case map_of (zip ''ABCDEFGHIJKLMNOPQRSTUVWXYZ'' ''abcdefghijklmnopqrstuvwxyz'') c of
        Some l \<Rightarrow> l
      | None \<Rightarrow> c)"

definition toLowerCase :: "string \<Rightarrow> string" where
  "toLowerCase s = map lower_char s"

text \<open>\<open>String.prototype.includes\<close>: the needle occurs at some position of the string.\<close>

fun includes_s :: "string \<Rightarrow> string \<Rightarrow> bool" where
  "includes_s [] sub = (sub = [])"
| "includes_s (c # cs) sub = (prefix sub (c # cs) \<or> includes_s cs sub)"

text \<open>\<open>Array.prototype.join\<close> on an array of strings.\<close>

fun join :: "string \<Rightarrow> string list \<Rightarrow> string" where
  "join sep [] = []"
| "join sep [x] = x"
| "join sep (x # y # ys) = x @ sep @ join sep (y # ys)"

text \<open>
  \<open>Array.prototype.sort\<close> with a comparison function. The sort is stable; for a comparison
  function that is a consistent ordering every stable sort gives the same array, so it is
  modelled by the stable insertion sort: going from the right, each element is put in front
  of the first element it does not have to follow.
\<close>

fun insert_by :: "('a \<Rightarrow> 'a \<Rightarrow> rat) \<Rightarrow> 'a \<Rightarrow> 'a list \<Rightarrow> 'a list" where
  "insert_by cmp x [] = [x]"
| "insert_by cmp x (y # ys) = (if cmp x y \<le> 0 then x # y # ys else y # insert_by cmp x ys)"

definition sort_by :: "('a \<Rightarrow> 'a \<Rightarrow> rat) \<Rightarrow> 'a list \<Rightarrow> 'a list" where
  "sort_by cmp xs = foldr (insert_by cmp) xs []"

section \<open>Screening scorer\<close>

text \<open>
  The scorers are handed an arbitrary JavaScript value. \<open>NotArray\<close> stands for any value on
  which \<open>Array.isArray\<close> is false. An array is the list of its slots, as many as its
  \<open>length\<close>: a slot holds an element, or is a hole (\<open>None\<close>), as every slot of
  \<open>new Array(9)\<close> is. An element is a finite number, or \<open>NonNumeric\<close>: any other value
  (NaN, an infinity, a string, a boolean, null, undefined, an object), on all of which
  \<open>Number.isInteger\<close> is false.
\<close>

datatype js_value = Num rat | NonNumeric

datatype js_arg = NotArray | Array "js_value option list"

text \<open>
  \<open>Array.prototype.every\<close> and \<open>Array.prototype.reduce\<close> call their function on the
  elements present and pass over the holes.
\<close>

fun present :: "'a option list \<Rightarrow> 'a list" where
  "present [] = []"
| "present (None # slots) = present slots"
| "present (Some v # slots) = v # present slots"

datatype error = Error string | TypeError

fun Number_isInteger :: "js_value \<Rightarrow> bool" where
  "Number_isInteger (Num q) = (of_int \<lfloor>q\<rfloor> = q)"
| "Number_isInteger NonNumeric = False"

text \<open>
  The comparisons \<open>answer >= 0\<close>, \<open>answer <= 3\<close> and \<open>totalScore <= 4\<close>, and the addition of
  the \<open>reduce\<close>. They are only ever evaluated on numbers: \<open>&&\<close> stops at a false
  \<open>Number.isInteger\<close>, and the sum is taken after the validity check. On another operand
  JavaScript would coerce; the model answers \<open>False\<close> and \<open>NonNumeric\<close> there.
\<close>

fun js_ge :: "js_value \<Rightarrow> rat \<Rightarrow> bool" where
  "js_ge (Num a) b = (a \<ge> b)"
| "js_ge NonNumeric b = False"

fun js_le :: "js_value \<Rightarrow> rat \<Rightarrow> bool" where
  "js_le (Num a) b = (a \<le> b)"
| "js_le NonNumeric b = False"

fun js_add :: "js_value \<Rightarrow> js_value \<Rightarrow> js_value" where
  "js_add (Num a) (Num b) = Num (a + b)"
| "js_add _ _ = NonNumeric"

record localized =
  en :: string
  hi :: string

record screening_result =
  score :: js_value
  maxScore :: nat
  severityBand :: string
  interpretation_r :: localized

definition PHQ9_minimal :: localized where
  \<open>PHQ9_minimal =
    \<lparr>en = ''Minimal depression symptoms. Your responses suggest you may have few or no symptoms of depression.'',
     hi = utf8 [224, 164, 168, 224, 165, 141, 224, 164, 175, 224, 165, 130, 224, 164, 168, 224, 164, 164,
     224, 164, 174, 32, 224, 164, 133, 224, 164, 181, 224, 164, 184, 224, 164, 190, 224, 164,
     166, 32, 224, 164, 149, 224, 165, 135, 32, 224, 164, 178, 224, 164, 149, 224, 165, 141,
     224, 164, 183, 224, 164, 163, 224, 165, 164, 32, 224, 164, 134, 224, 164, 170, 224, 164,
     149, 224, 165, 135, 32, 224, 164, 137, 224, 164, 164, 224, 165, 141, 224, 164, 164, 224,
     164, 176, 32, 224, 164, 184, 224, 165, 129, 224, 164, 157, 224, 164, 190, 224, 164, 164,
     224, 165, 135, 32, 224, 164, 185, 224, 165, 136, 224, 164, 130, 32, 224, 164, 149, 224,
     164, 191, 32, 224, 164, 134, 224, 164, 170, 224, 164, 174, 224, 165, 135, 224, 164, 130,
     32, 224, 164, 133, 224, 164, 181, 224, 164, 184, 224, 164, 190, 224, 164, 166, 32, 224,
     164, 149, 224, 165, 135, 32, 224, 164, 149, 224, 164, 174, 32, 224, 164, 175, 224, 164,
     190, 32, 224, 164, 149, 224, 165, 139, 224, 164, 136, 32, 224, 164, 178, 224, 164, 149,
     224, 165, 141, 224, 164, 183, 224, 164, 163, 32, 224, 164, 168, 224, 164, 185, 224, 165,
     128, 224, 164, 130, 32, 224, 164, 185, 224, 165, 136, 224, 164, 130, 224, 165, 164]\<rparr>\<close>

definition PHQ9_interpretations :: "(string \<times> localized) list" where
  \<open>PHQ9_interpretations = [
    (''minimal'', PHQ9_minimal),
    (''mild'',
     \<lparr>en = ''Mild depression symptoms. You may be experiencing some symptoms that could benefit from attention and self-care.'',
      hi = utf8 [224, 164, 185, 224, 164, 178, 224, 165, 141, 224, 164, 149, 224, 165, 135, 32, 224, 164,
     133, 224, 164, 181, 224, 164, 184, 224, 164, 190, 224, 164, 166, 32, 224, 164, 149, 224,
     165, 135, 32, 224, 164, 178, 224, 164, 149, 224, 165, 141, 224, 164, 183, 224, 164, 163,
     224, 165, 164, 32, 224, 164, 134, 224, 164, 170, 32, 224, 164, 149, 224, 165, 129, 224,
     164, 155, 32, 224, 164, 144, 224, 164, 184, 224, 165, 135, 32, 224, 164, 178, 224, 164,
     149, 224, 165, 141, 224, 164, 183, 224, 164, 163, 32, 224, 164, 133, 224, 164, 168, 224,
     165, 129, 224, 164, 173, 224, 164, 181, 32, 224, 164, 149, 224, 164, 176, 32, 224, 164,
     176, 224, 164, 185, 224, 165, 135, 32, 224, 164, 185, 224, 165, 139, 224, 164, 130, 32,
     224, 164, 156, 224, 164, 191, 224, 164, 168, 224, 164, 174, 224, 165, 135, 224, 164, 130,
     32, 224, 164, 166, 224, 165, 135, 224, 164, 150, 224, 164, 173, 224, 164, 190, 224, 164,
     178, 32, 224, 164, 148, 224, 164, 176, 32, 224, 164, 167, 224, 165, 141, 224, 164, 175,
     224, 164, 190, 224, 164, 168, 32, 224, 164, 149, 224, 165, 128, 32, 224, 164, 134, 224,
     164, 181, 224, 164, 182, 224, 165, 141, 224, 164, 175, 224, 164, 149, 224, 164, 164, 224,
     164, 190, 32, 224, 164, 185, 224, 165, 139, 224, 165, 164]\<rparr>),
    (''moderate'',
     \<lparr>en = ''Moderate depression symptoms. Consider speaking with a mental health professional about your symptoms.'',
      hi = utf8 [224, 164, 174, 224, 164, 167, 224, 165, 141, 224, 164, 175, 224, 164, 174, 32, 224, 164,
     133, 224, 164, 181, 224, 164, 184, 224, 164, 190, 224, 164, 166, 32, 224, 164, 149, 224,
     165, 135, 32, 224, 164, 178, 224, 164, 149, 224, 165, 141, 224, 164, 183, 224, 164, 163,
     224, 165, 164, 32, 224, 164, 133, 224, 164, 170, 224, 164, 168, 224, 165, 135, 32, 224,
     164, 178, 224, 164, 149, 224, 165, 141, 224, 164, 183, 224, 164, 163, 224, 165, 139, 224,
     164, 130, 32, 224, 164, 149, 224, 165, 135, 32, 224, 164, 172, 224, 164, 190, 224, 164,
     176, 224, 165, 135, 32, 224, 164, 174, 224, 165, 135, 224, 164, 130, 32, 224, 164, 149,
     224, 164, 191, 224, 164, 184, 224, 165, 128, 32, 224, 164, 174, 224, 164, 190, 224, 164,
     168, 224, 164, 184, 224, 164, 191, 224, 164, 149, 32, 224, 164, 184, 224, 165, 141, 224,
     164, 181, 224, 164, 190, 224, 164, 184, 224, 165, 141, 224, 164, 165, 224, 165, 141, 224,
     164, 175, 32, 224, 164, 170, 224, 165, 135, 224, 164, 182, 224, 165, 135, 224, 164, 181,
     224, 164, 176, 32, 224, 164, 184, 224, 165, 135, 32, 224, 164, 172, 224, 164, 190, 224,
     164, 164, 32, 224, 164, 149, 224, 164, 176, 224, 164, 168, 224, 165, 135, 32, 224, 164,
     170, 224, 164, 176, 32, 224, 164, 181, 224, 164, 191, 224, 164, 154, 224, 164, 190, 224,
     164, 176, 32, 224, 164, 149, 224, 164, 176, 224, 165, 135, 224, 164, 130, 224, 165, 164]\<rparr>),
    (''moderate-severe'',
     \<lparr>en = ''Moderate to severe depression symptoms. It's recommended to seek professional help to address these symptoms.'',
      hi = utf8 [224, 164, 174, 224, 164, 167, 224, 165, 141, 224, 164, 175, 224, 164, 174, 32, 224, 164,
     184, 224, 165, 135, 32, 224, 164, 151, 224, 164, 130, 224, 164, 173, 224, 165, 128, 224,
     164, 176, 32, 224, 164, 133, 224, 164, 181, 224, 164, 184, 224, 164, 190, 224, 164, 166,
     32, 224, 164, 149, 224, 165, 135, 32, 224, 164, 178, 224, 164, 149, 224, 165, 141, 224,
     164, 183, 224, 164, 163, 224, 165, 164, 32, 224, 164, 135, 224, 164, 168, 32, 224, 164,
     178, 224, 164, 149, 224, 165, 141, 224, 164, 183, 224, 164, 163, 224, 165, 139, 224, 164,
     130, 32, 224, 164, 149, 224, 165, 135, 32, 224, 164, 178, 224, 164, 191, 224, 164, 143,
     32, 224, 164, 170, 224, 165, 135, 224, 164, 182, 224, 165, 135, 224, 164, 181, 224, 164,
     176, 32, 224, 164, 184, 224, 164, 185, 224, 164, 190, 224, 164, 175, 224, 164, 164, 224,
     164, 190, 32, 224, 164, 178, 224, 165, 135, 224, 164, 168, 224, 165, 135, 32, 224, 164,
     149, 224, 165, 128, 32, 224, 164, 184, 224, 164, 191, 224, 164, 171, 224, 164, 190, 224,
     164, 176, 224, 164, 191, 224, 164, 182, 32, 224, 164, 149, 224, 165, 128, 32, 224, 164,
     156, 224, 164, 190, 224, 164, 164, 224, 165, 128, 32, 224, 164, 185, 224, 165, 136, 224,
     165, 164]\<rparr>),
    (''severe'',
     \<lparr>en = ''Severe depression symptoms. Please consider seeking immediate professional help. These symptoms can significantly impact your daily life.'',
      hi = utf8 [224, 164, 151, 224, 164, 130, 224, 164, 173, 224, 165, 128, 224, 164, 176, 32, 224, 164,
     133, 224, 164, 181, 224, 164, 184, 224, 164, 190, 224, 164, 166, 32, 224, 164, 149, 224,
     165, 135, 32, 224, 164, 178, 224, 164, 149, 224, 165, 141, 224, 164, 183, 224, 164, 163,
     224, 165, 164, 32, 224, 164, 149, 224, 165, 131, 224, 164, 170, 224, 164, 175, 224, 164,
     190, 32, 224, 164, 164, 224, 164, 164, 224, 165, 141, 224, 164, 149, 224, 164, 190, 224,
     164, 178, 32, 224, 164, 170, 224, 165, 135, 224, 164, 182, 224, 165, 135, 224, 164, 181,
     224, 164, 176, 32, 224, 164, 184, 224, 164, 185, 224, 164, 190, 224, 164, 175, 224, 164,
     164, 224, 164, 190, 32, 224, 164, 178, 224, 165, 135, 224, 164, 168, 224, 165, 135, 32,
     224, 164, 170, 224, 164, 176, 32, 224, 164, 181, 224, 164, 191, 224, 164, 154, 224, 164,
     190, 224, 164, 176, 32, 224, 164, 149, 224, 164, 176, 224, 165, 135, 224, 164, 130, 224,
     165, 164, 32, 224, 164, 175, 224, 165, 135, 32, 224, 164, 178, 224, 164, 149, 224, 165,
     141, 224, 164, 183, 224, 164, 163, 32, 224, 164, 134, 224, 164, 170, 224, 164, 149, 224,
     165, 135, 32, 224, 164, 166, 224, 165, 136, 224, 164, 168, 224, 164, 191, 224, 164, 149,
     32, 224, 164, 156, 224, 165, 128, 224, 164, 181, 224, 164, 168, 32, 224, 164, 149, 224,
     165, 139, 32, 224, 164, 174, 224, 164, 185, 224, 164, 164, 224, 165, 141, 224, 164, 181,
     224, 164, 170, 224, 165, 130, 224, 164, 176, 224, 165, 141, 224, 164, 163, 32, 224, 164,
     176, 224, 165, 130, 224, 164, 170, 32, 224, 164, 184, 224, 165, 135, 32, 224, 164, 170,
     224, 165, 141, 224, 164, 176, 224, 164, 173, 224, 164, 190, 224, 164, 181, 224, 164, 191,
     224, 164, 164, 32, 224, 164, 149, 224, 164, 176, 32, 224, 164, 184, 224, 164, 149, 224,
     164, 164, 224, 165, 135, 32, 224, 164, 185, 224, 165, 136, 224, 164, 130, 224, 165, 164]\<rparr>)]\<close>

definition getPHQ9Interpretation :: "string \<Rightarrow> localized" where
  "getPHQ9Interpretation band =
     (case map_of PHQ9_interpretations band of
        Some i \<Rightarrow> i
      | None \<Rightarrow> PHQ9_minimal)"

definition GAD7_minimal :: localized where
  \<open>GAD7_minimal =
    \<lparr>en = ''Minimal anxiety symptoms. Your responses suggest you may have few or no symptoms of anxiety.'',
     hi = utf8 [224, 164, 168, 224, 165, 141, 224, 164, 175, 224, 165, 130, 224, 164, 168, 224, 164, 164,
     224, 164, 174, 32, 224, 164, 154, 224, 164, 191, 224, 164, 130, 224, 164, 164, 224, 164,
     190, 32, 224, 164, 149, 224, 165, 135, 32, 224, 164, 178, 224, 164, 149, 224, 165, 141,
     224, 164, 183, 224, 164, 163, 224, 165, 164, 32, 224, 164, 134, 224, 164, 170, 224, 164,
     149, 224, 165, 135, 32, 224, 164, 137, 224, 164, 164, 224, 165, 141, 224, 164, 164, 224,
     164, 176, 32, 224, 164, 184, 224, 165, 129, 224, 164, 157, 224, 164, 190, 224, 164, 164,
     224, 165, 135, 32, 224, 164, 185, 224, 165, 136, 224, 164, 130, 32, 224, 164, 149, 224,
     164, 191, 32, 224, 164, 134, 224, 164, 170, 224, 164, 174, 224, 165, 135, 224, 164, 130,
     32, 224, 164, 154, 224, 164, 191, 224, 164, 130, 224, 164, 164, 224, 164, 190, 32, 224,
     164, 149, 224, 165, 135, 32, 224, 164, 149, 224, 164, 174, 32, 224, 164, 175, 224, 164,
     190, 32, 224, 164, 149, 224, 165, 139, 224, 164, 136, 32, 224, 164, 178, 224, 164, 149,
     224, 165, 141, 224, 164, 183, 224, 164, 163, 32, 224, 164, 168, 224, 164, 185, 224, 165,
     128, 224, 164, 130, 32, 224, 164, 185, 224, 165, 136, 224, 164, 130, 224, 165, 164]\<rparr>\<close>

definition GAD7_interpretations :: "(string \<times> localized) list" where
  \<open>GAD7_interpretations = [
    (''minimal'', GAD7_minimal),
    (''mild'',
     \<lparr>en = ''Mild anxiety symptoms. You may be experiencing some anxiety that could benefit from relaxation techniques and self-care.'',
      hi = utf8 [224, 164, 185, 224, 164, 178, 224, 165, 141, 224, 164, 149, 224, 165, 128, 32, 224, 164,
     154, 224, 164, 191, 224, 164, 130, 224, 164, 164, 224, 164, 190, 32, 224, 164, 149, 224,
     165, 135, 32, 224, 164, 178, 224, 164, 149, 224, 165, 141, 224, 164, 183, 224, 164, 163,
     224, 165, 164, 32, 224, 164, 134, 224, 164, 170, 32, 224, 164, 149, 224, 165, 129, 224,
     164, 155, 32, 224, 164, 154, 224, 164, 191, 224, 164, 130, 224, 164, 164, 224, 164, 190,
     32, 224, 164, 133, 224, 164, 168, 224, 165, 129, 224, 164, 173, 224, 164, 181, 32, 224,
     164, 149, 224, 164, 176, 32, 224, 164, 176, 224, 164, 185, 224, 165, 135, 32, 224, 164,
     185, 224, 165, 139, 224, 164, 130, 32, 224, 164, 156, 224, 164, 191, 224, 164, 184, 224,
     164, 174, 224, 165, 135, 224, 164, 130, 32, 224, 164, 134, 224, 164, 176, 224, 164, 190,
     224, 164, 174, 32, 224, 164, 149, 224, 165, 128, 32, 224, 164, 164, 224, 164, 149, 224,
     164, 168, 224, 165, 128, 224, 164, 149, 32, 224, 164, 148, 224, 164, 176, 32, 224, 164,
     184, 224, 165, 141, 224, 164, 181, 224, 164, 175, 224, 164, 130, 32, 224, 164, 149, 224,
     165, 128, 32, 224, 164, 166, 224, 165, 135, 224, 164, 150, 224, 164, 173, 224, 164, 190,
     224, 164, 178, 32, 224, 164, 184, 224, 165, 135, 32, 224, 164, 171, 224, 164, 190, 224,
     164, 175, 224, 164, 166, 224, 164, 190, 32, 224, 164, 185, 224, 165, 139, 32, 224, 164,
     184, 224, 164, 149, 224, 164, 164, 224, 164, 190, 32, 224, 164, 185, 224, 165, 136, 224,
     165, 164]\<rparr>),
    (''moderate'',
     \<lparr>en = ''Moderate anxiety symptoms. Consider learning anxiety management techniques or speaking with a counsellor.'',
      hi = utf8 [224, 164, 174, 224, 164, 167, 224, 165, 141, 224, 164, 175, 224, 164, 174, 32, 224, 164,
     154, 224, 164, 191, 224, 164, 130, 224, 164, 164, 224, 164, 190, 32, 224, 164, 149, 224,
     165, 135, 32, 224, 164, 178, 224, 164, 149, 224, 165, 141, 224, 164, 183, 224, 164, 163,
     224, 165, 164, 32, 224, 164, 154, 224, 164, 191, 224, 164, 130, 224, 164, 164, 224, 164,
     190, 32, 224, 164, 170, 224, 165, 141, 224, 164, 176, 224, 164, 172, 224, 164, 130, 224,
     164, 167, 224, 164, 168, 32, 224, 164, 164, 224, 164, 149, 224, 164, 168, 224, 165, 128,
     224, 164, 149, 32, 224, 164, 184, 224, 165, 128, 224, 164, 150, 224, 164, 168, 224, 165,
     135, 32, 224, 164, 175, 224, 164, 190, 32, 224, 164, 149, 224, 164, 190, 224, 164, 137,
     224, 164, 130, 224, 164, 184, 224, 164, 178, 224, 164, 176, 32, 224, 164, 184, 224, 165,
     135, 32, 224, 164, 172, 224, 164, 190, 224, 164, 164, 32, 224, 164, 149, 224, 164, 176,
     224, 164, 168, 224, 165, 135, 32, 224, 164, 170, 224, 164, 176, 32, 224, 164, 181, 224,
     164, 191, 224, 164, 154, 224, 164, 190, 224, 164, 176, 32, 224, 164, 149, 224, 164, 176,
     224, 165, 135, 224, 164, 130, 224, 165, 164]\<rparr>),
    (''severe'',
     \<lparr>en = ''Severe anxiety symptoms. It's recommended to seek professional help. These symptoms may be significantly impacting your daily functioning.'',
      hi = utf8 [224, 164, 151, 224, 164, 130, 224, 164, 173, 224, 165, 128, 224, 164, 176, 32, 224, 164,
     154, 224, 164, 191, 224, 164, 130, 224, 164, 164, 224, 164, 190, 32, 224, 164, 149, 224,
     165, 135, 32, 224, 164, 178, 224, 164, 149, 224, 165, 141, 224, 164, 183, 224, 164, 163,
     224, 165, 164, 32, 224, 164, 170, 224, 165, 135, 224, 164, 182, 224, 165, 135, 224, 164,
     181, 224, 164, 176, 32, 224, 164, 184, 224, 164, 185, 224, 164, 190, 224, 164, 175, 224,
     164, 164, 224, 164, 190, 32, 224, 164, 178, 224, 165, 135, 224, 164, 168, 224, 165, 135,
     32, 224, 164, 149, 224, 165, 128, 32, 224, 164, 184, 224, 164, 191, 224, 164, 171, 224,
     164, 190, 224, 164, 176, 224, 164, 191, 224, 164, 182, 32, 224, 164, 149, 224, 165, 128,
     32, 224, 164, 156, 224, 164, 190, 224, 164, 164, 224, 165, 128, 32, 224, 164, 185, 224,
     165, 136, 224, 165, 164, 32, 224, 164, 175, 224, 165, 135, 32, 224, 164, 178, 224, 164,
     149, 224, 165, 141, 224, 164, 183, 224, 164, 163, 32, 224, 164, 134, 224, 164, 170, 224,
     164, 149, 224, 165, 135, 32, 224, 164, 166, 224, 165, 136, 224, 164, 168, 224, 164, 191,
     224, 164, 149, 32, 224, 164, 149, 224, 164, 190, 224, 164, 176, 224, 165, 141, 224, 164,
     175, 224, 164, 149, 224, 164, 178, 224, 164, 190, 224, 164, 170, 32, 224, 164, 149, 224,
     165, 139, 32, 224, 164, 174, 224, 164, 185, 224, 164, 164, 224, 165, 141, 224, 164, 181,
     224, 164, 170, 224, 165, 130, 224, 164, 176, 224, 165, 141, 224, 164, 163, 32, 224, 164,
     176, 224, 165, 130, 224, 164, 170, 32, 224, 164, 184, 224, 165, 135, 32, 224, 164, 170,
     224, 165, 141, 224, 164, 176, 224, 164, 173, 224, 164, 190, 224, 164, 181, 224, 164, 191,
     224, 164, 164, 32, 224, 164, 149, 224, 164, 176, 32, 224, 164, 184, 224, 164, 149, 224,
     164, 164, 224, 165, 135, 32, 224, 164, 185, 224, 165, 136, 224, 164, 130, 224, 165, 164]\<rparr>)]\<close>

definition getGAD7Interpretation :: "string \<Rightarrow> localized" where
  "getGAD7Interpretation band =
     (case map_of GAD7_interpretations band of
        Some i \<Rightarrow> i
      | None \<Rightarrow> GAD7_minimal)"
text \<open>
  \<open>scorePHQ9\<close> and \<open>scoreGAD7\<close>. A \<open>throw new Error(msg)\<close> is the value \<open>Inl (Error msg)\<close>.
\<close>

definition scorePHQ9 :: "js_arg \<Rightarrow> error + screening_result" where
  "scorePHQ9 answers =
     (case answers of
        NotArray \<Rightarrow> Inl (Error ''PHQ-9 requires exactly 9 answers'')
      | Array slots \<Rightarrow>
          if length slots \<noteq> 9 then Inl (Error ''PHQ-9 requires exactly 9 answers'')
          else
            let validAnswers =
                  list_all (\<lambda>answer. Number_isInteger answer \<and> js_ge answer 0 \<and> js_le answer 3)
                    (present slots)
            in
              if \<not> validAnswers then Inl (Error ''PHQ-9 answers must be integers between 0 and 3'')
              else
                let totalScore = foldl (\<lambda>sum answer. js_add sum answer) (Num 0) (present slots);
                    band =
                      (if js_le totalScore 4 then ''minimal''
                       else if js_le totalScore 9 then ''mild''
                       else if js_le totalScore 14 then ''moderate''
                       else if js_le totalScore 19 then ''moderate-severe''
                       else ''severe'')
                in Inr \<lparr>score = totalScore, maxScore = 27, severityBand = band,
                         interpretation_r = getPHQ9Interpretation band\<rparr>)"

definition scoreGAD7 :: "js_arg \<Rightarrow> error + screening_result" where
  "scoreGAD7 answers =
     (case answers of
        NotArray \<Rightarrow> Inl (Error ''GAD-7 requires exactly 7 answers'')
      | Array slots \<Rightarrow>
          if length slots \<noteq> 7 then Inl (Error ''GAD-7 requires exactly 7 answers'')
          else
            let validAnswers =
                  list_all (\<lambda>answer. Number_isInteger answer \<and> js_ge answer 0 \<and> js_le answer 3)
                    (present slots)
            in
              if \<not> validAnswers then Inl (Error ''GAD-7 answers must be integers between 0 and 3'')
              else
                let totalScore = foldl (\<lambda>sum answer. js_add sum answer) (Num 0) (present slots);
                    band =
                      (if js_le totalScore 4 then ''minimal''
                       else if js_le totalScore 9 then ''mild''
                       else if js_le totalScore 14 then ''moderate''
                       else ''severe'')
                in Inr \<lparr>score = totalScore, maxScore = 21, severityBand = band,
                         interpretation_r = getGAD7Interpretation band\<rparr>)"

text \<open>
  The vectors the scorers are specified on: an array of exactly \<open>n\<close> slots, each holding
  one of the integers 0, 1, 2, 3.
\<close>

fun is_array_of_length :: "nat \<Rightarrow> js_arg \<Rightarrow> bool" where
  "is_array_of_length n NotArray = False"
| "is_array_of_length n (Array slots) = (length slots = n)"

fun valid_vector :: "nat \<Rightarrow> js_arg \<Rightarrow> bool" where
  "valid_vector n NotArray = False"
| "valid_vector n (Array slots) =
     (length slots = n \<and> set slots \<subseteq> {Some (Num 0), Some (Num 1), Some (Num 2), Some (Num 3)})"

text \<open>An array without holes.\<close>

fun no_holes :: "js_arg \<Rightarrow> bool" where
  "no_holes NotArray = True"
| "no_holes (Array slots) = (None \<notin> set slots)"

definition answers_of :: "int list \<Rightarrow> js_arg" where
  "answers_of xs = Array (map (\<lambda>x. Some (Num (of_int x))) xs)"

section \<open>Chat classifier\<close>

definition CATEGORY_TRIGGERS :: "(string \<times> string list) list" where
  \<open>CATEGORY_TRIGGERS = [
    (''ANXIETY'', [
      ''anxious'', ''nervous'', ''panic'', ''racing heart'', ''short of breath'',
      ''worry'', ''restless'', ''tense'', ''fear'', ''phobia'', ''overwhelmed'',
      ''stressed out'', ''can't calm down'', ''butterflies'', ''sweating'', ''trembling'',
      ''dread'']),
    (''DEPRESSION'', [
      ''sad'', ''depressed'', ''hopeless'', ''worthless'', ''empty'', ''lonely'',
      ''no energy'', ''tired all the time'', ''can't sleep'', ''no motivation'',
      ''nothing matters'', ''give up'', ''pointless'', ''numb'', ''crying'',
      ''no interest'', ''isolated'', ''darkness'']),
    (''STRESS_BURNOUT'', [
      ''stressed'', ''burnout'', ''exhausted'', ''overwhelmed'', ''pressure'',
      ''too much work'', ''can't cope'', ''breaking point'', ''workload'',
      ''deadline stress'', ''performance anxiety'', ''juggling too much'']),
    (''SLEEP'', [
      ''can't sleep'', ''insomnia'', ''nightmares'', ''tired'', ''fatigue'',
      ''staying up late'', ''tossing and turning'', ''sleep problems'',
      ''waking up early'', ''restless sleep'', ''no rest'']),
    (''ACADEMIC_STRESS'', [
      ''exam stress'', ''failing'', ''grades'', ''study pressure'', ''academic pressure'',
      ''can't focus'', ''procrastination'', ''behind in studies'', ''test anxiety'',
      ''assignment stress'', ''performance pressure'', ''academic failure'']),
    (''SOCIAL_ISOLATION'', [
      ''alone'', ''lonely'', ''no friends'', ''isolated'', ''social anxiety'',
      ''can't connect'', ''withdrawn'', ''nobody understands'', ''left out'',
      ''social pressure'', ''awkward'', ''shy'']),
    (''CRISIS'', [
      ''suicidal'', ''end it all'', ''harm myself'', ''self-harm'', ''kill myself'',
      ''life not worth living'', ''want to die'', ''suicide'', ''cut myself'',
      ''overdose'', ''jump'', ''hanging'', ''razor'', ''pills'', ''end my life'',
      ''better off dead'', ''no point living'', ''can't go on''])]\<close>
definition SEVERITY_LOW :: string where "SEVERITY_LOW = ''low''"
definition SEVERITY_MODERATE :: string where "SEVERITY_MODERATE = ''moderate''"
definition SEVERITY_HIGH :: string where "SEVERITY_HIGH = ''high''"
definition SEVERITY_CRISIS :: string where "SEVERITY_CRISIS = ''crisis''"

text \<open>
  \<open>classify(text, history, screenings)\<close>, with the value of \<open>Date.now()\<close> as a further
  argument. No step of it can throw on a string, a list of messages and a list of
  screening records, so on these the model returns the classification itself; a list
  with entries that are not objects is the matter of \<open>classify_js\<close> below.
\<close>

text \<open>
  A message of the session history, and a stored screening as \<open>classify\<close> reads it.
  \<open>createdAt\<close> is the time value of \<open>new Date(s.createdAt)\<close> in milliseconds, \<open>None\<close> when
  that is an Invalid Date (the field is missing, or a string that does not parse);
  \<open>severityBand_s\<close> is \<open>None\<close> when the field is missing.
\<close>

record chat_message =
  sender :: string
  text_m :: string
  createdAt_m :: int

record screening =
  createdAt :: "int option"
  severityBand_s :: "string option"

record classification =
  category :: string
  severity :: string
  crisis :: bool
  confidence :: rat

definition crisisKeywords :: "string list" where
  "crisisKeywords = (case map_of CATEGORY_TRIGGERS ''CRISIS'' of Some keywords \<Rightarrow> keywords | None \<Rightarrow> [])"

definition hasCrisisKeywords :: "string \<Rightarrow> bool" where
  "hasCrisisKeywords normalizedText =
     list_ex (\<lambda>keyword. includes_s normalizedText (toLowerCase keyword)) crisisKeywords"

text \<open>
  \<open>categoryScores\<close>: the entries of the object in insertion order, which is the order of
  \<open>CATEGORY_TRIGGERS\<close> without \<open>CRISIS\<close>. A score is a quotient of two small naturals; as a
  double it is the correctly rounded quotient, so two scores are equal, or ordered, as
  doubles exactly when they are as rationals, and none lies within rounding distance of
  0.3 or 0.6.
\<close>

definition categoryScores :: "string \<Rightarrow> (string \<times> rat) list" where
  "categoryScores normalizedText =
     map (\<lambda>(category, keywords).
            (category,
             of_nat (length (filter (\<lambda>keyword. includes_s normalizedText (toLowerCase keyword)) keywords))
               / of_nat (length keywords)))
         (filter (\<lambda>(category, keywords). category \<noteq> ''CRISIS'') CATEGORY_TRIGGERS)"

definition bestCategory :: "string \<Rightarrow> (string \<times> rat) option" where
  "bestCategory normalizedText =
     (case sort_by (\<lambda>(_, a) (_, b). b - a) (categoryScores normalizedText) of
        [] \<Rightarrow> None
      | best # _ \<Rightarrow> Some best)"

text \<open>
  The recency filter. \<open>now\<close> is \<open>Date.now()\<close>. A time value is a whole number of
  milliseconds; an Invalid Date makes \<open>daysDiff\<close> NaN and the comparison false.
\<close>

definition recentScreenings :: "int \<Rightarrow> screening list \<Rightarrow> screening list" where
  "recentScreenings now screenings =
     filter (\<lambda>s. case createdAt s of
                    None \<Rightarrow> False
                  | Some t \<Rightarrow> (let daysDiff = (of_int (now - t) :: rat) / (1000 * 60 * 60 * 24)
                              in daysDiff \<le> 60))
            screenings"

text \<open>
  The comparison function of the second sort; a NaN result counts as 0, as
  \<open>Array.prototype.sort\<close> has it.
\<close>

definition byCreatedAtDesc :: "screening \<Rightarrow> screening \<Rightarrow> rat" where
  "byCreatedAtDesc a b =
     (case (createdAt b, createdAt a) of
        (Some tb, Some ta) \<Rightarrow> of_int (tb - ta)
      | _ \<Rightarrow> 0)"

definition latestScreening :: "screening list \<Rightarrow> screening option" where
  "latestScreening recent =
     (case sort_by byCreatedAtDesc recent of
        [] \<Rightarrow> None
      | latest # _ \<Rightarrow> Some latest)"

text \<open>The augmentation of the severity from the recent screenings (the last step of \<open>classify\<close>).\<close>

definition augment :: "int \<Rightarrow> screening list \<Rightarrow> string \<Rightarrow> string" where
  "augment now screenings current =
     (let recent = recentScreenings now screenings in
        if length recent > 0 then
          (case latestScreening recent of
             None \<Rightarrow> current
           | Some latest \<Rightarrow>
               if severityBand_s latest = Some ''severe'' \<or> severityBand_s latest = Some ''moderate-severe''
               then SEVERITY_HIGH
               else if severityBand_s latest = Some ''moderate'' \<and> current = SEVERITY_LOW
               then SEVERITY_MODERATE
               else current)
        else current)"

definition classify :: "int \<Rightarrow> string \<Rightarrow> chat_message list \<Rightarrow> screening list \<Rightarrow> classification" where
  "classify now text history screenings =
     (let normalizedText = toLowerCase text in
        if hasCrisisKeywords normalizedText then
          \<lparr>category = ''CRISIS'', severity = SEVERITY_CRISIS, crisis = True, confidence = 1\<rparr>
        else
          (case bestCategory normalizedText of
             None \<Rightarrow>
               \<lparr>category = ''GENERAL'', severity = SEVERITY_LOW, crisis = False, confidence = 0\<rparr>
           | Some (cat, conf) \<Rightarrow>
               if conf = 0 then
                 \<lparr>category = ''GENERAL'', severity = SEVERITY_LOW, crisis = False, confidence = 0\<rparr>
               else
                 let sev = SEVERITY_LOW;
                     sev = (if conf > 3 / 10 then SEVERITY_MODERATE else sev);
                     sev = (if conf > 6 / 10 then SEVERITY_HIGH else sev);
                     sev = augment now screenings sev
                 in \<lparr>category = cat, severity = sev, crisis = False, confidence = conf\<rparr>))"

text \<open>
  \<open>classify\<close> on a screenings array whose entries need not be objects. An entry is a
  screening record (any object, with the fields it has), or is null or undefined; on
  such an entry the filter's \<open>s.createdAt\<close> throws a TypeError. The filter is the first
  step that reads the entries, and it reads every one of them.
\<close>

datatype js_entry = Nullish | Record screening

fun records :: "js_entry list \<Rightarrow> screening list" where
  "records [] = []"
| "records (Nullish # entries) = records entries"
| "records (Record s # entries) = s # records entries"

definition recentScreenings_js :: "int \<Rightarrow> js_entry list \<Rightarrow> error + screening list" where
  "recentScreenings_js now entries =
     (if list_ex (\<lambda>e. e = Nullish) entries then Inl TypeError
      else Inr (recentScreenings now (records entries)))"

definition augment_js :: "int \<Rightarrow> js_entry list \<Rightarrow> string \<Rightarrow> error + string" where
  "augment_js now entries current =
     (case recentScreenings_js now entries of
        Inl e \<Rightarrow> Inl e
      | Inr recent \<Rightarrow>
          Inr (if length recent > 0 then
                 (case latestScreening recent of
                    None \<Rightarrow> current
                  | Some latest \<Rightarrow>
                      if severityBand_s latest = Some ''severe''
                         \<or> severityBand_s latest = Some ''moderate-severe''
                      then SEVERITY_HIGH
                      else if severityBand_s latest = Some ''moderate'' \<and> current = SEVERITY_LOW
                      then SEVERITY_MODERATE
                      else current)
               else current))"

definition classify_js :: "int \<Rightarrow> string \<Rightarrow> chat_message list \<Rightarrow> js_entry list
                            \<Rightarrow> error + classification" where
  "classify_js now text history entries =
     (let normalizedText = toLowerCase text in
        if hasCrisisKeywords normalizedText then
          Inr \<lparr>category = ''CRISIS'', severity = SEVERITY_CRISIS, crisis = True, confidence = 1\<rparr>
        else
          (case bestCategory normalizedText of
             None \<Rightarrow>
               Inr \<lparr>category = ''GENERAL'', severity = SEVERITY_LOW, crisis = False, confidence = 0\<rparr>
           | Some (cat, conf) \<Rightarrow>
               if conf = 0 then
                 Inr \<lparr>category = ''GENERAL'', severity = SEVERITY_LOW, crisis = False, confidence = 0\<rparr>
               else
                 let sev = SEVERITY_LOW;
                     sev = (if conf > 3 / 10 then SEVERITY_MODERATE else sev);
                     sev = (if conf > 6 / 10 then SEVERITY_HIGH else sev)
                 in (case augment_js now entries sev of
                       Inl e \<Rightarrow> Inl e
                     | Inr sev' \<Rightarrow>
                         Inr \<lparr>category = cat, severity = sev', crisis = False,
                              confidence = conf\<rparr>)))"

section \<open>Response templates\<close>

text \<open>
  A template of \<open>RESPONSE_TEMPLATES\<close> has one of two shapes: that of a topic category, or
  that of the \<open>CRISIS\<close> entry.
\<close>

record topic_template =
  validation :: string
  strategies :: "string list"
  psychoeducation :: string
  next_steps :: string

record crisis_template =
  immediate_safety :: string
  crisis_resources :: string
  support_available :: string
  next_steps_c :: string

datatype template = Topic topic_template | Crisis crisis_template

definition RESPONSE_TEMPLATES_en :: "(string \<times> template) list" where
  \<open>RESPONSE_TEMPLATES_en = [
    (''ANXIETY'', Topic
      \<lparr>validation = ''I understand you're feeling anxious right now. That's a very real and valid experience.'',
       strategies = [
         ''Try the 4-7-8 breathing technique: Breathe in for 4, hold for 7, exhale for 8.'',
         ''Ground yourself using the 5-4-3-2-1 technique: Name 5 things you see, 4 you can touch, 3 you hear, 2 you smell, 1 you taste.'',
         ''Progressive muscle relaxation can help: Tense and release each muscle group from your toes to your head.''],
       psychoeducation = ''Anxiety is your body's natural response to stress. While uncomfortable, these feelings are temporary and manageable.'',
       next_steps = ''Consider taking our anxiety screening (GAD-7) or booking a session with a counsellor for ongoing support.''\<rparr>),
    (''DEPRESSION'', Topic
      \<lparr>validation = ''I hear that you're going through a difficult time. These feelings of sadness and emptiness are real.'',
       strategies = [
         ''Try to maintain a daily routine, even a simple one.'',
         ''Engage in small, achievable activities that used to bring you joy.'',
         ''Consider reaching out to a trusted friend or family member.''],
       psychoeducation = ''Depression affects how you think, feel, and act. It's a medical condition that can be treated effectively.'',
       next_steps = ''Taking our depression screening (PHQ-9) can help assess your symptoms. Professional support is available.''\<rparr>),
    (''STRESS_BURNOUT'', Topic
      \<lparr>validation = ''Feeling overwhelmed by stress and responsibilities is more common than you might think.'',
       strategies = [
         ''Break large tasks into smaller, manageable steps.'',
         ''Practice saying 'no' to additional commitments when possible.'',
         ''Schedule regular breaks and self-care activities.''],
       psychoeducation = ''Chronic stress can lead to burnout, affecting your physical and mental health. Recovery is possible with proper support.'',
       next_steps = ''Consider stress management techniques and speaking with a counsellor about workload management.''\<rparr>),
    (''SLEEP'', Topic
      \<lparr>validation = ''Sleep difficulties can be frustrating and impact many areas of your life.'',
       strategies = [
         ''Maintain a consistent sleep schedule, even on weekends.'',
         ''Create a relaxing bedtime routine without screens.'',
         ''Keep your bedroom cool, dark, and quiet.''],
       psychoeducation = ''Good sleep hygiene is essential for mental health. Sleep problems often improve with consistent practices.'',
       next_steps = ''If sleep problems persist, consider discussing them with a healthcare provider or counsellor.''\<rparr>),
    (''ACADEMIC_STRESS'', Topic
      \<lparr>validation = ''Academic pressure can feel overwhelming, especially when you want to do well.'',
       strategies = [
         ''Break study sessions into focused 25-minute blocks with short breaks.'',
         ''Create a realistic study schedule that includes time for rest.'',
         ''Reach out to teachers or academic advisors when you need help.''],
       psychoeducation = ''Academic stress is common among students. Learning effective study strategies can reduce anxiety and improve performance.'',
       next_steps = ''Our counsellors can help with study strategies and managing academic pressure.''\<rparr>),
    (''SOCIAL_ISOLATION'', Topic
      \<lparr>validation = ''Feeling disconnected from others can be lonely and painful.'',
       strategies = [
         ''Start with small social interactions, like greeting classmates or colleagues.'',
         ''Join clubs or activities aligned with your interests.'',
         ''Consider online communities related to your hobbies or concerns.''],
       psychoeducation = ''Social connections are vital for mental health. Building relationships takes time and practice.'',
       next_steps = ''Our peer support forum might be a good place to start connecting with others who understand.''\<rparr>),
    (''CRISIS'', Crisis
      \<lparr>immediate_safety = ''I'm very concerned about what you've shared. Your life has value, and help is available right now.'',
       crisis_resources = ''Please reach out immediately to a crisis helpline or emergency services if you're in immediate danger.'',
       support_available = ''You don't have to go through this alone. Professional help and support are available.'',
       next_steps_c = ''Please consider speaking with a mental health professional as soon as possible.''\<rparr>)]\<close>

definition RESPONSE_TEMPLATES_hi :: "(string \<times> template) list" where
  \<open>RESPONSE_TEMPLATES_hi = [
    (''ANXIETY'', Topic
      \<lparr>validation = utf8 [224, 164, 174, 224, 165, 136, 224, 164, 130, 32, 224, 164, 184, 224, 164, 174, 224, 164,
     157, 32, 224, 164, 184, 224, 164, 149, 224, 164, 164, 224, 164, 190, 32, 224, 164, 185,
     224, 165, 130, 224, 164, 129, 32, 224, 164, 149, 224, 164, 191, 32, 224, 164, 134, 224,
     164, 170, 32, 224, 164, 133, 224, 164, 173, 224, 165, 128, 32, 224, 164, 154, 224, 164,
     191, 224, 164, 130, 224, 164, 164, 224, 164, 191, 224, 164, 164, 32, 224, 164, 174, 224,
     164, 185, 224, 164, 184, 224, 165, 130, 224, 164, 184, 32, 224, 164, 149, 224, 164, 176,
     32, 224, 164, 176, 224, 164, 185, 224, 165, 135, 32, 224, 164, 185, 224, 165, 136, 224,
     164, 130, 224, 165, 164, 32, 224, 164, 175, 224, 164, 185, 32, 224, 164, 143, 224, 164,
     149, 32, 224, 164, 181, 224, 164, 190, 224, 164, 184, 224, 165, 141, 224, 164, 164, 224,
     164, 181, 224, 164, 191, 224, 164, 149, 32, 224, 164, 148, 224, 164, 176, 32, 224, 164,
     174, 224, 164, 190, 224, 164, 168, 224, 165, 141, 224, 164, 175, 32, 224, 164, 133, 224,
     164, 168, 224, 165, 129, 224, 164, 173, 224, 164, 181, 32, 224, 164, 185, 224, 165, 136,
     224, 165, 164],
       strategies = [
         utf8 [52, 45, 55, 45, 56, 32, 224, 164, 182, 224, 165, 141, 224, 164, 181, 224, 164, 190, 224,
     164, 184, 32, 224, 164, 164, 224, 164, 149, 224, 164, 168, 224, 165, 128, 224, 164, 149,
     32, 224, 164, 134, 224, 164, 156, 224, 164, 188, 224, 164, 174, 224, 164, 190, 224, 164,
     143, 224, 164, 130, 58, 32, 52, 32, 224, 164, 149, 224, 165, 128, 32, 224, 164, 151, 224,
     164, 191, 224, 164, 168, 224, 164, 164, 224, 165, 128, 32, 224, 164, 174, 224, 165, 135,
     224, 164, 130, 32, 224, 164, 184, 224, 164, 190, 224, 164, 130, 224, 164, 184, 32, 224,
     164, 178, 224, 165, 135, 224, 164, 130, 44, 32, 55, 32, 224, 164, 164, 224, 164, 149, 32,
     224, 164, 176, 224, 165, 139, 224, 164, 149, 224, 165, 135, 224, 164, 130, 44, 32, 56, 32,
     224, 164, 174, 224, 165, 135, 224, 164, 130, 32, 224, 164, 155, 224, 165, 139, 224, 164,
     161, 224, 164, 188, 224, 165, 135, 224, 164, 130, 224, 165, 164],
         utf8 [53, 45, 52, 45, 51, 45, 50, 45, 49, 32, 224, 164, 164, 224, 164, 149, 224, 164, 168, 224,
     165, 128, 224, 164, 149, 32, 224, 164, 184, 224, 165, 135, 32, 224, 164, 150, 224, 165,
     129, 224, 164, 166, 32, 224, 164, 149, 224, 165, 139, 32, 224, 164, 184, 224, 165, 141,
     224, 164, 165, 224, 164, 191, 224, 164, 176, 32, 224, 164, 149, 224, 164, 176, 224, 165,
     135, 224, 164, 130, 58, 32, 53, 32, 224, 164, 154, 224, 165, 128, 224, 164, 156, 224, 165,
     135, 224, 164, 130, 32, 224, 164, 166, 224, 165, 135, 224, 164, 150, 224, 165, 135, 224,
     164, 130, 44, 32, 52, 32, 224, 164, 149, 224, 165, 139, 32, 224, 164, 155, 224, 165, 129,
     224, 164, 143, 224, 164, 130, 44, 32, 51, 32, 224, 164, 184, 224, 165, 129, 224, 164, 168,
     224, 165, 135, 224, 164, 130, 44, 32, 50, 32, 224, 164, 184, 224, 165, 130, 224, 164, 130,
     224, 164, 152, 224, 165, 135, 224, 164, 130, 44, 32, 49, 32, 224, 164, 154, 224, 164, 150,
     224, 165, 135, 224, 164, 130, 224, 165, 164]],
       psychoeducation = utf8 [224, 164, 154, 224, 164, 191, 224, 164, 130, 224, 164, 164, 224, 164, 190, 32, 224, 164,
     164, 224, 164, 168, 224, 164, 190, 224, 164, 181, 32, 224, 164, 149, 224, 165, 135, 32,
     224, 164, 178, 224, 164, 191, 224, 164, 143, 32, 224, 164, 134, 224, 164, 170, 224, 164,
     149, 224, 165, 135, 32, 224, 164, 182, 224, 164, 176, 224, 165, 128, 224, 164, 176, 32,
     224, 164, 149, 224, 165, 128, 32, 224, 164, 170, 224, 165, 141, 224, 164, 176, 224, 164,
     190, 224, 164, 149, 224, 165, 131, 224, 164, 164, 224, 164, 191, 224, 164, 149, 32, 224,
     164, 170, 224, 165, 141, 224, 164, 176, 224, 164, 164, 224, 164, 191, 224, 164, 149, 224,
     165, 141, 224, 164, 176, 224, 164, 191, 224, 164, 175, 224, 164, 190, 32, 224, 164, 185,
     224, 165, 136, 224, 165, 164, 32, 224, 164, 133, 224, 164, 184, 224, 164, 185, 224, 164,
     156, 32, 224, 164, 185, 224, 165, 139, 224, 164, 168, 224, 165, 135, 32, 224, 164, 170,
     224, 164, 176, 32, 224, 164, 173, 224, 165, 128, 44, 32, 224, 164, 175, 224, 165, 135, 32,
     224, 164, 173, 224, 164, 190, 224, 164, 181, 224, 164, 168, 224, 164, 190, 224, 164, 143,
     224, 164, 130, 32, 224, 164, 133, 224, 164, 184, 224, 165, 141, 224, 164, 165, 224, 164,
     190, 224, 164, 175, 224, 165, 128, 32, 224, 164, 185, 224, 165, 136, 224, 164, 130, 224,
     165, 164],
       next_steps = utf8 [224, 164, 185, 224, 164, 174, 224, 164, 190, 224, 164, 176, 224, 165, 128, 32, 224, 164,
     154, 224, 164, 191, 224, 164, 130, 224, 164, 164, 224, 164, 190, 32, 224, 164, 156, 224,
     164, 190, 224, 164, 130, 224, 164, 154, 32, 40, 71, 65, 68, 45, 55, 41, 32, 224, 164, 178,
     224, 165, 135, 224, 164, 168, 224, 165, 135, 32, 224, 164, 175, 224, 164, 190, 32, 224,
     164, 149, 224, 164, 190, 224, 164, 137, 224, 164, 130, 224, 164, 184, 224, 164, 178, 224,
     164, 176, 32, 224, 164, 149, 224, 165, 135, 32, 224, 164, 184, 224, 164, 190, 224, 164,
     165, 32, 224, 164, 184, 224, 164, 164, 224, 165, 141, 224, 164, 176, 32, 224, 164, 172,
     224, 165, 129, 224, 164, 149, 32, 224, 164, 149, 224, 164, 176, 224, 164, 168, 224, 165,
     135, 32, 224, 164, 170, 224, 164, 176, 32, 224, 164, 181, 224, 164, 191, 224, 164, 154,
     224, 164, 190, 224, 164, 176, 32, 224, 164, 149, 224, 164, 176, 224, 165, 135, 224, 164,
     130, 224, 165, 164]\<rparr>)]\<close>

definition RESPONSE_TEMPLATES :: "(string \<times> (string \<times> template) list) list" where
  "RESPONSE_TEMPLATES = [(''en'', RESPONSE_TEMPLATES_en), (''hi'', RESPONSE_TEMPLATES_hi)]"

text \<open>
  The response bundle. The three return statements of \<open>buildResponse\<close> build objects with
  different keys; a key that an object does not have is \<open>None\<close> here.
\<close>

record response =
  message :: string
  quickReplies :: "string list"
  showCrisisBanner :: bool
  nextSteps :: "string option"
  category_r :: "string option"
  severity_r :: "string option"

text \<open>
  \<open>buildResponse(classification, language)\<close>. Reading a property of \<open>undefined\<close> throws a
  TypeError: in the crisis branch when the language's table has no \<open>CRISIS\<close> entry, and
  in the topic branch when the entry found has no \<open>strategies\<close>. A property that a template
  object lacks reads as \<open>undefined\<close>, which a template literal prints as that word.
  The tables are looked up by their own keys.
\<close>

definition buildResponse :: "classification \<Rightarrow> string \<Rightarrow> error + response" where
  "buildResponse classification language =
     (let templates = (case map_of RESPONSE_TEMPLATES language of
                         Some t \<Rightarrow> t
                       | None \<Rightarrow> RESPONSE_TEMPLATES_en)
      in
        if crisis classification then
          (case map_of templates ''CRISIS'' of
             None \<Rightarrow> Inl TypeError
           | Some (Crisis template) \<Rightarrow>
               Inr \<lparr>message = immediate_safety template @ '' '' @ crisis_resources template
                                @ '' '' @ support_available template,
                    quickReplies = [''Show crisis resources'', ''Connect with counsellor'', ''Find helplines''],
                    showCrisisBanner = True,
                    nextSteps = Some (next_steps_c template),
                    category_r = None, severity_r = None\<rparr>
           | Some (Topic template) \<Rightarrow>
               Inr \<lparr>message = ''undefined undefined undefined'',
                    quickReplies = [''Show crisis resources'', ''Connect with counsellor'', ''Find helplines''],
                    showCrisisBanner = True,
                    nextSteps = Some (next_steps template),
                    category_r = None, severity_r = None\<rparr>)
        else
          (case map_of templates (category classification) of
             None \<Rightarrow>
               Inr \<lparr>message = ''I'm here to listen and support you. Can you tell me more about what's on your mind?'',
                    quickReplies = [''Take screening test'', ''Book counselling'', ''Browse resources''],
                    showCrisisBanner = False,
                    nextSteps = None, category_r = None, severity_r = None\<rparr>
           | Some (Crisis template) \<Rightarrow> Inl TypeError
           | Some (Topic template) \<Rightarrow>
               let strats = take 2 (strategies template);
                   msg = validation template @ '' '' @ join '' '' strats @ '' ''
                           @ psychoeducation template;
                   replies = [''Tell me more'', ''Take screening'', ''Book session'', ''Browse resources'']
               in Inr \<lparr>message = msg,
                       quickReplies = replies,
                       showCrisisBanner = False,
                       nextSteps = Some (next_steps template),
                       category_r = Some (category classification),
                       severity_r = Some (severity classification)\<rparr>))"

section \<open>Notions of the specification\<close>

text \<open>The six scored categories, in the order of their declaration.\<close>

definition category_order :: "string list" where
  "category_order =
     [''ANXIETY'', ''DEPRESSION'', ''STRESS_BURNOUT'', ''SLEEP'', ''ACADEMIC_STRESS'', ''SOCIAL_ISOLATION'']"

text \<open>
  The match ratio of a category on a text: the number of the category's keywords that
  occur in the case-folded text, divided by the length of its keyword list.
\<close>

definition match_ratio :: "string \<Rightarrow> string \<Rightarrow> rat" where
  "match_ratio text c =
     (case map_of CATEGORY_TRIGGERS c of
        None \<Rightarrow> 0
      | Some keywords \<Rightarrow>
          of_nat (length (filter (\<lambda>k. includes_s (toLowerCase text) k) keywords))
            / of_nat (length keywords))"

text \<open>The case-folded text contains a keyword of some category of the table.\<close>

definition contains_keyword_of :: "string \<Rightarrow> (string \<times> string list) list \<Rightarrow> bool" where
  "contains_keyword_of text table =
     list_ex (\<lambda>(c, keywords). list_ex (\<lambda>k. includes_s (toLowerCase text) k) keywords) table"

definition non_crisis_triggers :: "(string \<times> string list) list" where
  "non_crisis_triggers = filter (\<lambda>(c, keywords). c \<noteq> ''CRISIS'') CATEGORY_TRIGGERS"

text \<open>The order of the severity tiers: low, moderate, high, crisis.\<close>

definition severity_rank :: "string \<Rightarrow> nat" where
  "severity_rank s =
     (if s = ''low'' then 0 else if s = ''moderate'' then 1 else if s = ''high'' then 2 else 3)"

text \<open>A screening created no more than 60 days (5184000000 ms) before \<open>now\<close>.\<close>

definition created_within_60_days :: "int \<Rightarrow> screening \<Rightarrow> bool" where
  "created_within_60_days now s =
     (case createdAt s of None \<Rightarrow> False | Some t \<Rightarrow> now - t \<le> 5184000000)"

text \<open>A screening record that has both a usable \<open>createdAt\<close> and a \<open>severityBand\<close>.\<close>

definition well_formed :: "screening \<Rightarrow> bool" where
  "well_formed s = (createdAt s \<noteq> None \<and> severityBand_s s \<noteq> None)"


section \<open>Properties of the screening scorer\<close>

lemma foldl_js_add_ints:
  "foldl (\<lambda>sum answer. js_add sum answer) (Num a) (map (\<lambda>x. Num (of_int x)) xs) = Num (a + of_int (sum_list xs))"
  by (induction xs arbitrary: a) (simp_all add: add.assoc)

lemma present_map_Some: "present (map (\<lambda>x. Some (f x)) xs) = map f xs"
  by (induction xs) simp_all

lemma present_dense: "None \<notin> set slots \<Longrightarrow> map Some (present slots) = slots"
  by (induction slots rule: present.induct) simp_all

lemma sum_list_bounds:
  fixes xs :: "int list"
  assumes "\<forall>x\<in>set xs. 0 \<le> x \<and> x \<le> 3"
  shows "0 \<le> sum_list xs \<and> sum_list xs \<le> 3 * int (length xs)"
  using assms by (induction xs) auto

lemma valid_answer_iff:
  "(Number_isInteger v \<and> js_ge v 0 \<and> js_le v 3) = (v \<in> {Num 0, Num 1, Num 2, Num 3})"
proof (cases v)
  case (Num q)
  show ?thesis
  proof
    assume a: "Number_isInteger v \<and> js_ge v 0 \<and> js_le v 3"
    then have q: "of_int \<lfloor>q\<rfloor> = q" "0 \<le> q" "q \<le> 3" using Num by simp_all
    obtain n :: int where qn: "q = of_int n" using q(1) by metis
    have "0 \<le> n" "n \<le> 3" using q(2,3) unfolding qn by simp_all
    then have "n = 0 \<or> n = 1 \<or> n = 2 \<or> n = 3" by arith
    then show "v \<in> {Num 0, Num 1, Num 2, Num 3}" using Num qn by auto
  next
    assume "v \<in> {Num 0, Num 1, Num 2, Num 3}"
    then show "Number_isInteger v \<and> js_ge v 0 \<and> js_le v 3" by auto
  qed
next
  case NonNumeric
  then show ?thesis by simp
qed

lemma list_all_valid_iff:
  "list_all (\<lambda>answer. Number_isInteger answer \<and> js_ge answer 0 \<and> js_le answer 3) elems
     = (set elems \<subseteq> {Num 0, Num 1, Num 2, Num 3})"
  unfolding valid_answer_iff by (auto simp: list_all_iff)

lemma list_all_valid_ints:
  "list_all (\<lambda>answer. Number_isInteger answer \<and> js_ge answer 0 \<and> js_le answer 3) (map (\<lambda>x. Num (of_int x)) xs)
     = (\<forall>x\<in>set xs. 0 \<le> x \<and> x \<le> 3)"
  by (induction xs) simp_all

lemma scorePHQ9_valid:
  fixes xs :: "int list"
  assumes len: "length xs = 9" and rng: "\<forall>x\<in>set xs. 0 \<le> x \<and> x \<le> 3"
  shows "scorePHQ9 (answers_of xs) =
           Inr \<lparr>score = Num (of_int (sum_list xs)), maxScore = 27,
                severityBand = (if sum_list xs \<le> 4 then ''minimal''
                                else if sum_list xs \<le> 9 then ''mild''
                                else if sum_list xs \<le> 14 then ''moderate''
                                else if sum_list xs \<le> 19 then ''moderate-severe''
                                else ''severe''),
                interpretation_r = getPHQ9Interpretation
                               (if sum_list xs \<le> 4 then ''minimal''
                                else if sum_list xs \<le> 9 then ''mild''
                                else if sum_list xs \<le> 14 then ''moderate''
                                else if sum_list xs \<le> 19 then ''moderate-severe''
                                else ''severe'')\<rparr>"
proof -
  have le: "\<And>k::int. js_le (Num (of_int (sum_list xs))) (of_int k) = (sum_list xs \<le> k)"
    by simp
  have le': "js_le (Num (of_int (sum_list xs))) 4 = (sum_list xs \<le> 4)"
     "js_le (Num (of_int (sum_list xs))) 9 = (sum_list xs \<le> 9)"
     "js_le (Num (of_int (sum_list xs))) 14 = (sum_list xs \<le> 14)"
     "js_le (Num (of_int (sum_list xs))) 19 = (sum_list xs \<le> 19)"
    using le[of 4] le[of 9] le[of 14] le[of 19] by simp_all
  show ?thesis
    unfolding scorePHQ9_def answers_of_def
    using len rng
    by (simp add: present_map_Some list_all_valid_ints foldl_js_add_ints le' Let_def
          del: js_le.simps)
qed

lemma scoreGAD7_valid:
  fixes xs :: "int list"
  assumes len: "length xs = 7" and rng: "\<forall>x\<in>set xs. 0 \<le> x \<and> x \<le> 3"
  shows "scoreGAD7 (answers_of xs) =
           Inr \<lparr>score = Num (of_int (sum_list xs)), maxScore = 21,
                severityBand = (if sum_list xs \<le> 4 then ''minimal''
                                else if sum_list xs \<le> 9 then ''mild''
                                else if sum_list xs \<le> 14 then ''moderate''
                                else ''severe''),
                interpretation_r = getGAD7Interpretation
                               (if sum_list xs \<le> 4 then ''minimal''
                                else if sum_list xs \<le> 9 then ''mild''
                                else if sum_list xs \<le> 14 then ''moderate''
                                else ''severe'')\<rparr>"
proof -
  have le: "\<And>k::int. js_le (Num (of_int (sum_list xs))) (of_int k) = (sum_list xs \<le> k)"
    by simp
  have le': "js_le (Num (of_int (sum_list xs))) 4 = (sum_list xs \<le> 4)"
     "js_le (Num (of_int (sum_list xs))) 9 = (sum_list xs \<le> 9)"
     "js_le (Num (of_int (sum_list xs))) 14 = (sum_list xs \<le> 14)"
    using le[of 4] le[of 9] le[of 14] by simp_all
  show ?thesis
    unfolding scoreGAD7_def answers_of_def
    using len rng
    by (simp add: present_map_Some list_all_valid_ints foldl_js_add_ints le' Let_def
          del: js_le.simps)
qed

text \<open>
  Claim C3 (scoring law). For every vector of exactly 9 integers, each in 0..3, \<open>scorePHQ9\<close>
  returns a result whose score is the sum of the answers, which lies in 0..27, with
  \<open>maxScore\<close> 27 and the band given by the inclusive thresholds 4, 9, 14, 19. For every
  vector of exactly 7 such integers \<open>scoreGAD7\<close> returns the sum, in 0..21, with
  \<open>maxScore\<close> 21 and the band given by the thresholds 4, 9, 14.
\<close>

theorem scoring_law:
  fixes xs :: "int list"
  assumes rng: "\<forall>x\<in>set xs. 0 \<le> x \<and> x \<le> 3"
  shows "(length xs = 9 \<longrightarrow>
            (\<exists>r. scorePHQ9 (answers_of xs) = Inr r
                \<and> score r = Num (of_int (sum_list xs))
                \<and> 0 \<le> sum_list xs \<and> sum_list xs \<le> 27
                \<and> maxScore r = 27
                \<and> severityBand r =
                    (if sum_list xs \<le> 4 then ''minimal''
                     else if sum_list xs \<le> 9 then ''mild''
                     else if sum_list xs \<le> 14 then ''moderate''
                     else if sum_list xs \<le> 19 then ''moderate-severe''
                     else ''severe'')))
       \<and> (length xs = 7 \<longrightarrow>
            (\<exists>r. scoreGAD7 (answers_of xs) = Inr r
                \<and> score r = Num (of_int (sum_list xs))
                \<and> 0 \<le> sum_list xs \<and> sum_list xs \<le> 21
                \<and> maxScore r = 21
                \<and> severityBand r =
                    (if sum_list xs \<le> 4 then ''minimal''
                     else if sum_list xs \<le> 9 then ''mild''
                     else if sum_list xs \<le> 14 then ''moderate''
                     else ''severe'')))"
proof (intro conjI impI)
  assume len: "length xs = 9"
  have b: "0 \<le> sum_list xs \<and> sum_list xs \<le> 27"
    using sum_list_bounds[OF rng] len by simp
  show "\<exists>r. scorePHQ9 (answers_of xs) = Inr r
                \<and> score r = Num (of_int (sum_list xs))
                \<and> 0 \<le> sum_list xs \<and> sum_list xs \<le> 27
                \<and> maxScore r = 27
                \<and> severityBand r =
                    (if sum_list xs \<le> 4 then ''minimal''
                     else if sum_list xs \<le> 9 then ''mild''
                     else if sum_list xs \<le> 14 then ''moderate''
                     else if sum_list xs \<le> 19 then ''moderate-severe''
                     else ''severe'')"
    using b by (simp add: scorePHQ9_valid[OF len rng])
next
  assume len: "length xs = 7"
  have b: "0 \<le> sum_list xs \<and> sum_list xs \<le> 21"
    using sum_list_bounds[OF rng] len by simp
  show "\<exists>r. scoreGAD7 (answers_of xs) = Inr r
                \<and> score r = Num (of_int (sum_list xs))
                \<and> 0 \<le> sum_list xs \<and> sum_list xs \<le> 21
                \<and> maxScore r = 21
                \<and> severityBand r =
                    (if sum_list xs \<le> 4 then ''minimal''
                     else if sum_list xs \<le> 9 then ''mild''
                     else if sum_list xs \<le> 14 then ''moderate''
                     else ''severe'')"
    using b by (simp add: scoreGAD7_valid[OF len rng])
qed

theorem scoring_law_witness:
  "list_all (\<lambda>x. 0 \<le> x \<and> x \<le> 3) [1, 1, 1, 1, 1, 0, 0, 0, 0 :: int]
   \<and> (\<exists>r. scorePHQ9 (answers_of [1, 1, 1, 1, 1, 0, 0, 0, 0]) = Inr r
          \<and> score r = Num 5 \<and> maxScore r = 27 \<and> severityBand r = ''mild'')
   \<and> list_all (\<lambda>x. 0 \<le> x \<and> x \<le> 3) [3, 3, 3, 3, 3, 0, 0 :: int]
   \<and> (\<exists>r. scoreGAD7 (answers_of [3, 3, 3, 3, 3, 0, 0]) = Inr r
          \<and> score r = Num 15 \<and> maxScore r = 21 \<and> severityBand r = ''severe'')"
  using scoring_law[of "[1, 1, 1, 1, 1, 0, 0, 0, 0]"] scoring_law[of "[3, 3, 3, 3, 3, 0, 0]"]
  by simp

lemma valid_slots_iff:
  assumes "None \<notin> set slots"
  shows "(set (present slots) \<subseteq> {Num 0, Num 1, Num 2, Num 3})
           = (set slots \<subseteq> {Some (Num 0), Some (Num 1), Some (Num 2), Some (Num 3)})"
proof -
  have "set slots = Some ` set (present slots)"
    using present_dense[OF assms] by (metis set_map)
  then show ?thesis by auto
qed

text \<open>What the two scorers accept: an array of the right length whose present elements are valid.\<close>

lemma scorePHQ9_accepts:
  "(\<exists>r. scorePHQ9 a = Inr r)
     = (\<exists>slots. a = Array slots \<and> length slots = 9
           \<and> set (present slots) \<subseteq> {Num 0, Num 1, Num 2, Num 3})"
  by (cases a) (auto simp: scorePHQ9_def list_all_valid_iff Let_def)

lemma scoreGAD7_accepts:
  "(\<exists>r. scoreGAD7 a = Inr r)
     = (\<exists>slots. a = Array slots \<and> length slots = 7
           \<and> set (present slots) \<subseteq> {Num 0, Num 1, Num 2, Num 3})"
  by (cases a) (auto simp: scoreGAD7_def list_all_valid_iff Let_def)

lemma scorePHQ9_length_message:
  "(scorePHQ9 a = Inl (Error ''PHQ-9 requires exactly 9 answers'')) = (\<not> is_array_of_length 9 a)"
  by (cases a) (auto simp: scorePHQ9_def Let_def)

lemma scoreGAD7_length_message:
  "(scoreGAD7 a = Inl (Error ''GAD-7 requires exactly 7 answers'')) = (\<not> is_array_of_length 7 a)"
  by (cases a) (auto simp: scoreGAD7_def Let_def)

lemma scorePHQ9_range_message:
  "(scorePHQ9 a = Inl (Error ''PHQ-9 answers must be integers between 0 and 3''))
     = (is_array_of_length 9 a \<and> \<not> (\<exists>r. scorePHQ9 a = Inr r))"
  by (cases a) (auto simp: scorePHQ9_def Let_def)

lemma scoreGAD7_range_message:
  "(scoreGAD7 a = Inl (Error ''GAD-7 answers must be integers between 0 and 3''))
     = (is_array_of_length 7 a \<and> \<not> (\<exists>r. scoreGAD7 a = Inr r))"
  by (cases a) (auto simp: scoreGAD7_def Let_def)

text \<open>
  On arrays without holes the rejection is exact: each scorer throws exactly when its
  argument is not a vector of the right length of integers in 0..3, with the message
  about the length or the one about the range as the case is.
\<close>

lemma rejection_without_holes:
  assumes "no_holes a"
  shows "((scorePHQ9 a = Inl (Error ''PHQ-9 requires exactly 9 answers'')) = (\<not> is_array_of_length 9 a))
   \<and> ((scorePHQ9 a = Inl (Error ''PHQ-9 answers must be integers between 0 and 3''))
        = (is_array_of_length 9 a \<and> \<not> valid_vector 9 a))
   \<and> ((\<exists>r. scorePHQ9 a = Inr r) = valid_vector 9 a)
   \<and> ((scoreGAD7 a = Inl (Error ''GAD-7 requires exactly 7 answers'')) = (\<not> is_array_of_length 7 a))
   \<and> ((scoreGAD7 a = Inl (Error ''GAD-7 answers must be integers between 0 and 3''))
        = (is_array_of_length 7 a \<and> \<not> valid_vector 7 a))
   \<and> ((\<exists>r. scoreGAD7 a = Inr r) = valid_vector 7 a)"
proof -
  have p: "(\<exists>r. scorePHQ9 a = Inr r) = valid_vector 9 a"
    unfolding scorePHQ9_accepts using assms by (cases a) (auto simp: valid_slots_iff)
  have g: "(\<exists>r. scoreGAD7 a = Inr r) = valid_vector 7 a"
    unfolding scoreGAD7_accepts using assms by (cases a) (auto simp: valid_slots_iff)
  show ?thesis
    unfolding scorePHQ9_range_message scoreGAD7_range_message
      scorePHQ9_length_message scoreGAD7_length_message p g
    by simp
qed

text \<open>
  Claim C4 does not hold of the code. \<open>every\<close> and \<open>reduce\<close> pass over holes, so an array
  of the right length with holes is not rejected: \<open>new Array(9)\<close> holds no answer at all
  and \<open>scorePHQ9\<close> scores it 0, minimal; a GAD-7 array with one answer and six holes is
  scored by that answer.
\<close>

theorem sparse_array_is_scored:
  "\<not> valid_vector 9 (Array [None, None, None, None, None, None, None, None, None])
   \<and> scorePHQ9 (Array [None, None, None, None, None, None, None, None, None])
       = Inr \<lparr>score = Num 0, maxScore = 27, severityBand = ''minimal'',
              interpretation_r = getPHQ9Interpretation ''minimal''\<rparr>
   \<and> \<not> valid_vector 7 (Array [Some (Num 3), None, None, None, None, None, None])
   \<and> scoreGAD7 (Array [Some (Num 3), None, None, None, None, None, None])
       = Inr \<lparr>score = Num 3, maxScore = 21, severityBand = ''minimal'',
              interpretation_r = getGAD7Interpretation ''minimal''\<rparr>"
  by (simp add: scorePHQ9_def scoreGAD7_def Let_def)

section \<open>Properties of the chat classifier\<close>

subsection \<open>Substrings and the stable sort\<close>

lemma includes_s_iff: "includes_s s sub = (\<exists>p q. s = p @ sub @ q)"
proof (induction s)
  case Nil
  then show ?case by auto
next
  case (Cons c cs)
  show ?case
  proof
    assume "includes_s (c # cs) sub"
    then consider "prefix sub (c # cs)" | "includes_s cs sub" by auto
    then show "\<exists>p q. c # cs = p @ sub @ q"
    proof cases
      case 1
      then obtain q where "c # cs = sub @ q" by (auto simp: prefix_def)
      then have "c # cs = [] @ sub @ q" by simp
      then show ?thesis by blast
    next
      case 2
      then obtain p q where "cs = p @ sub @ q" using Cons.IH by blast
      then have "c # cs = (c # p) @ sub @ q" by simp
      then show ?thesis by blast
    qed
  next
    assume "\<exists>p q. c # cs = p @ sub @ q"
    then obtain p q where pq: "c # cs = p @ sub @ q" by blast
    show "includes_s (c # cs) sub"
    proof (cases p)
      case Nil
      then have "prefix sub (c # cs)" using pq by (simp add: prefix_def)
      then show ?thesis by simp
    next
      case (Cons d ds)
      then have "cs = ds @ sub @ q" using pq by simp
      then have "includes_s cs sub" using Cons.IH by blast
      then show ?thesis by simp
    qed
  qed
qed

lemma toLowerCase_append: "toLowerCase (a @ b) = toLowerCase a @ toLowerCase b"
  by (simp add: toLowerCase_def)

lemma sort_by_Nil: "sort_by cmp [] = []"
  by (simp add: sort_by_def)

lemma sort_by_Cons: "sort_by cmp (x # xs) = insert_by cmp x (sort_by cmp xs)"
  by (simp add: sort_by_def)

lemma set_insert_by: "set (insert_by cmp x xs) = insert x (set xs)"
  by (induction xs) auto

lemma set_sort_by: "set (sort_by cmp xs) = set xs"
  by (induction xs) (simp_all add: sort_by_Nil sort_by_Cons set_insert_by)

text \<open>The head of the sorted list is the first element of greatest key.\<close>

lemma sort_by_head:
  fixes key :: "'a \<Rightarrow> 'k::linorder"
  assumes "\<forall>x\<in>set xs. \<forall>y\<in>set xs. (cmp x y \<le> 0) = (key y \<le> key x)"
    and "xs \<noteq> []"
  shows "\<exists>pre h post rest. xs = pre @ h # post \<and> sort_by cmp xs = h # rest
            \<and> (\<forall>y\<in>set pre. key y < key h) \<and> (\<forall>y\<in>set xs. key y \<le> key h)"
  using assms
proof (induction xs)
  case Nil
  then show ?case by simp
next
  case (Cons x xs)
  show ?case
  proof (cases "xs = []")
    case True
    have "x # xs = [] @ x # []" using True by simp
    moreover have "sort_by cmp (x # xs) = x # []" using True by (simp add: sort_by_def)
    moreover have "\<forall>y\<in>set (x # xs). key y \<le> key x" using True by simp
    ultimately show ?thesis by (metis empty_iff empty_set)
  next
    case False
    have sub: "\<forall>a\<in>set xs. \<forall>b\<in>set xs. (cmp a b \<le> 0) = (key b \<le> key a)"
      using Cons.prems(1) by simp
    obtain pre h post rest where ih: "xs = pre @ h # post" "sort_by cmp xs = h # rest"
        "\<forall>y\<in>set pre. key y < key h" "\<forall>y\<in>set xs. key y \<le> key h"
      using Cons.IH[OF sub False] by blast
    have hin: "h \<in> set xs" using ih(1) by simp
    have c: "(cmp x h \<le> 0) = (key h \<le> key x)" using Cons.prems(1) hin by simp
    show ?thesis
    proof (cases "key h \<le> key x")
      case True
      have "x # xs = [] @ x # xs" by simp
      moreover have "sort_by cmp (x # xs) = x # h # rest"
        using True c ih(2) by (simp add: sort_by_Cons)
      moreover have "\<forall>y\<in>set (x # xs). key y \<le> key x" using ih(4) True by auto
      ultimately show ?thesis by (metis empty_iff empty_set)
    next
      case False
      have "x # xs = (x # pre) @ h # post" using ih(1) by simp
      moreover have "sort_by cmp (x # xs) = h # insert_by cmp x rest"
        using False c ih(2) by (simp add: sort_by_Cons)
      moreover have "\<forall>y\<in>set (x # pre). key y < key h" using ih(3) False by auto
      moreover have "\<forall>y\<in>set (x # xs). key y \<le> key h" using ih(4) False by auto
      ultimately show ?thesis by blast
    qed
  qed
qed

text \<open>An index whose key is greatest, and strictly greater than all keys before it, is the head.\<close>

lemma sort_by_head_nth:
  fixes key :: "'a \<Rightarrow> 'k::linorder"
  assumes cmp: "\<forall>x\<in>set xs. \<forall>y\<in>set xs. (cmp x y \<le> 0) = (key y \<le> key x)"
    and i: "i < length xs"
    and mx: "\<forall>j<length xs. key (xs ! j) \<le> key (xs ! i)"
    and fst: "\<forall>j<i. key (xs ! j) < key (xs ! i)"
  shows "\<exists>rest. sort_by cmp xs = (xs ! i) # rest"
proof -
  have ne: "xs \<noteq> []" using i by auto
  obtain pre h post rest where d: "xs = pre @ h # post" "sort_by cmp xs = h # rest"
        "\<forall>y\<in>set pre. key y < key h" "\<forall>y\<in>set xs. key y \<le> key h"
    using sort_by_head[OF cmp ne] by blast
  have hn: "xs ! length pre = h" using d(1) by simp
  have lp: "length pre < length xs" using d(1) by simp
  have "length pre = i"
  proof (rule ccontr)
    assume n: "length pre \<noteq> i"
    show False
    proof (cases "length pre < i")
      case True
      then have "key h < key (xs ! i)" using fst hn by auto
      moreover have "key (xs ! i) \<le> key h" using d(4) i by simp
      ultimately show False by simp
    next
      case False
      then have lt: "i < length pre" using n by simp
      then have "xs ! i = pre ! i" using d(1) by (simp add: nth_append)
      then have "xs ! i \<in> set pre" using lt by simp
      then have "key (xs ! i) < key h" using d(3) by simp
      moreover have "key h \<le> key (xs ! i)" using mx lp hn by auto
      ultimately show False by simp
    qed
  qed
  then show ?thesis using hn d(2) by auto
qed

subsection \<open>Facts about the keyword table\<close>

lemma crisisKeywords_eq:
  "crisisKeywords = [''suicidal'', ''end it all'', ''harm myself'', ''self-harm'', ''kill myself'',
      ''life not worth living'', ''want to die'', ''suicide'', ''cut myself'',
      ''overdose'', ''jump'', ''hanging'', ''razor'', ''pills'', ''end my life'',
      ''better off dead'', ''no point living'', ''can't go on'']"
  by code_simp

lemma keywords_lower:
  "list_all (\<lambda>(c, keywords). list_all (\<lambda>k. toLowerCase k = k) keywords) CATEGORY_TRIGGERS"
  by code_simp

lemma scored_categories:
  "map fst (filter (\<lambda>(category, keywords). category \<noteq> ''CRISIS'') CATEGORY_TRIGGERS) = category_order"
  by code_simp

lemma distinct_categories: "distinct (map fst CATEGORY_TRIGGERS)"
  by code_simp

subsection \<open>The crisis test\<close>

lemma hasCrisisKeywords_iff:
  "hasCrisisKeywords t = (\<exists>k\<in>set crisisKeywords. includes_s t (toLowerCase k))"
  by (simp add: hasCrisisKeywords_def list_ex_iff)

lemma classify_crisis:
  "hasCrisisKeywords (toLowerCase text) \<Longrightarrow>
     classify now text history screenings =
       \<lparr>category = ''CRISIS'', severity = ''crisis'', crisis = True, confidence = 1\<rparr>"
  by (simp add: classify_def SEVERITY_CRISIS_def)

subsection \<open>The scores\<close>

lemma keyword_lower:
  assumes "(c, keywords) \<in> set CATEGORY_TRIGGERS" and "k \<in> set keywords"
  shows "toLowerCase k = k"
  using keywords_lower assms by (auto simp: list_all_iff)

lemma map_of_triggers:
  assumes "(c, keywords) \<in> set CATEGORY_TRIGGERS"
  shows "map_of CATEGORY_TRIGGERS c = Some keywords"
  using assms distinct_categories by simp

lemma score_is_match_ratio:
  assumes "(c, keywords) \<in> set CATEGORY_TRIGGERS"
  shows "of_nat (length (filter (\<lambda>keyword. includes_s (toLowerCase text) (toLowerCase keyword)) keywords))
           / of_nat (length keywords) = match_ratio text c"
proof -
  have "filter (\<lambda>keyword. includes_s (toLowerCase text) (toLowerCase keyword)) keywords
          = filter (\<lambda>k. includes_s (toLowerCase text) k) keywords"
    by (rule filter_cong) (simp_all add: keyword_lower[OF assms])
  then show ?thesis
    by (simp add: match_ratio_def map_of_triggers[OF assms])
qed

lemma categoryScores_eq:
  "categoryScores (toLowerCase text) = map (\<lambda>c. (c, match_ratio text c)) category_order"
proof -
  let ?T = "filter (\<lambda>(category, keywords). category \<noteq> ''CRISIS'') CATEGORY_TRIGGERS"
  have "categoryScores (toLowerCase text) = map (\<lambda>e. (fst e, match_ratio text (fst e))) ?T"
    unfolding categoryScores_def
    by (rule map_cong) (auto simp: score_is_match_ratio)
  also have "\<dots> = map (\<lambda>c. (c, match_ratio text c)) (map fst ?T)"
    by (simp add: comp_def)
  finally show ?thesis by (simp only: scored_categories)
qed

lemma CRISIS_not_scored: "''CRISIS'' \<notin> set category_order"
  by (simp add: category_order_def)

lemma GENERAL_not_scored: "''GENERAL'' \<notin> set category_order"
  by (simp add: category_order_def)

lemma score_cmp:
  "\<forall>x\<in>set xs. \<forall>y\<in>set xs.
     ((case x of (uu, a) \<Rightarrow> \<lambda>(uv, b). b - a) y \<le> (0::rat)) = (snd y \<le> snd x)"
  by (auto split: prod.splits)

lemma bestCategory_Some:
  "\<exists>c. c \<in> set category_order
       \<and> bestCategory (toLowerCase text) = Some (c, match_ratio text c)
       \<and> (\<forall>d\<in>set category_order. match_ratio text d \<le> match_ratio text c)"
proof -
  let ?xs = "map (\<lambda>c. (c, match_ratio text c)) category_order"
  have ne: "?xs \<noteq> []" by (simp add: category_order_def)
  obtain pre h post rest where d: "?xs = pre @ h # post"
      "sort_by (\<lambda>(_, a) (_, b). b - a) ?xs = h # rest"
      "\<forall>y\<in>set ?xs. snd y \<le> snd h"
    using sort_by_head[OF score_cmp ne] by blast
  have "h \<in> set ?xs" using d(1) by (metis in_set_conv_decomp)
  then obtain c where c: "c \<in> set category_order" "h = (c, match_ratio text c)" by auto
  have "bestCategory (toLowerCase text) = Some (c, match_ratio text c)"
    using d(2) c(2) by (simp add: bestCategory_def categoryScores_eq)
  moreover have "\<forall>d\<in>set category_order. match_ratio text d \<le> match_ratio text c"
    using d(3) c(2) by auto
  ultimately show ?thesis using c(1) by blast
qed

lemma bestCategory_first_max:
  assumes i: "i < length category_order"
    and mx: "\<forall>j<length category_order.
               match_ratio text (category_order ! j) \<le> match_ratio text (category_order ! i)"
    and fst: "\<forall>j<i. match_ratio text (category_order ! j) < match_ratio text (category_order ! i)"
  shows "bestCategory (toLowerCase text)
           = Some (category_order ! i, match_ratio text (category_order ! i))"
proof -
  let ?xs = "map (\<lambda>c. (c, match_ratio text c)) category_order"
  have i': "i < length ?xs" using i by simp
  have mx': "\<forall>j<length ?xs. snd (?xs ! j) \<le> snd (?xs ! i)" using mx i by simp
  have fst': "\<forall>j<i. snd (?xs ! j) < snd (?xs ! i)" using fst i by simp
  obtain rest where "sort_by (\<lambda>(_, a) (_, b). b - a) ?xs = (?xs ! i) # rest"
    using sort_by_head_nth[OF score_cmp i' mx' fst'] by blast
  then show ?thesis using i by (simp add: bestCategory_def categoryScores_eq)
qed

subsection \<open>The three outcomes of classify\<close>

lemma classify_general:
  assumes "\<not> hasCrisisKeywords (toLowerCase text)"
    and "bestCategory (toLowerCase text) = Some (c, 0)"
  shows "classify now text history screenings =
           \<lparr>category = ''GENERAL'', severity = ''low'', crisis = False, confidence = 0\<rparr>"
  using assms by (simp add: classify_def SEVERITY_LOW_def)

lemma classify_scored:
  assumes "\<not> hasCrisisKeywords (toLowerCase text)"
    and "bestCategory (toLowerCase text) = Some (c, r)" and "r \<noteq> 0"
  shows "classify now text history screenings =
           \<lparr>category = c,
            severity = augment now screenings
                         (if r > 6 / 10 then ''high'' else if r > 3 / 10 then ''moderate'' else ''low''),
            crisis = False, confidence = r\<rparr>"
  using assms
  by (simp add: classify_def Let_def SEVERITY_LOW_def SEVERITY_MODERATE_def SEVERITY_HIGH_def)

subsection \<open>The augmentation step\<close>

lemma recentScreenings_eq:
  "recentScreenings now screenings = filter (created_within_60_days now) screenings"
proof -
  have "\<And>t. ((of_int (now - t) :: rat) / (1000 * 60 * 60 * 24) \<le> 60) = (now - t \<le> 5184000000)"
  proof -
    fix t
    have "((of_int (now - t) :: rat) / (1000 * 60 * 60 * 24) \<le> 60)
            = ((of_int (now - t) :: rat) \<le> of_int 5184000000)"
      by (simp add: divide_le_eq)
    also have "\<dots> = (now - t \<le> 5184000000)"
      by (simp only: of_int_le_iff)
    finally show "((of_int (now - t) :: rat) / (1000 * 60 * 60 * 24) \<le> 60) = (now - t \<le> 5184000000)" .
  qed
  then show ?thesis
    unfolding recentScreenings_def created_within_60_days_def
    by (intro filter_cong refl) (simp add: Let_def split: option.splits)
qed

lemma recent_has_date:
  "s \<in> set (recentScreenings now screenings) \<Longrightarrow> \<exists>t. createdAt s = Some t"
  by (auto simp: recentScreenings_eq created_within_60_days_def split: option.splits)

lemma latestScreening_Nil: "latestScreening [] = None"
  by (simp add: latestScreening_def sort_by_Nil)

lemma latestScreening_max:
  assumes ne: "recent \<noteq> []" and dated: "\<forall>s\<in>set recent. \<exists>t. createdAt s = Some t"
  shows "\<exists>latest t. latestScreening recent = Some latest \<and> latest \<in> set recent
            \<and> createdAt latest = Some t
            \<and> (\<forall>s\<in>set recent. \<forall>u. createdAt s = Some u \<longrightarrow> u \<le> t)"
proof -
  let ?key = "\<lambda>s. case createdAt s of Some t \<Rightarrow> t | None \<Rightarrow> (0::int)"
  have cmp: "\<forall>x\<in>set recent. \<forall>y\<in>set recent. (byCreatedAtDesc x y \<le> 0) = (?key y \<le> ?key x)"
  proof (intro ballI)
    fix x y assume "x \<in> set recent" "y \<in> set recent"
    then obtain tx ty where "createdAt x = Some tx" "createdAt y = Some ty"
      using dated by blast
    then show "(byCreatedAtDesc x y \<le> 0) = (?key y \<le> ?key x)"
      by (simp add: byCreatedAtDesc_def)
  qed
  obtain pre h post rest where d: "recent = pre @ h # post"
      "sort_by byCreatedAtDesc recent = h # rest"
      "\<forall>y\<in>set recent. ?key y \<le> ?key h"
    using sort_by_head[OF cmp ne] by blast
  have hin: "h \<in> set recent" using d(1) by simp
  then obtain t where t: "createdAt h = Some t" using dated by blast
  have "latestScreening recent = Some h" using d(2) by (simp add: latestScreening_def)
  moreover have "\<forall>s\<in>set recent. \<forall>u. createdAt s = Some u \<longrightarrow> u \<le> t"
  proof (intro ballI allI impI)
    fix s u assume "s \<in> set recent" "createdAt s = Some u"
    then show "u \<le> t" using d(3) t by force
  qed
  ultimately show ?thesis using hin t by blast
qed

lemma augment_no_recent:
  "recentScreenings now screenings = [] \<Longrightarrow> augment now screenings current = current"
  by (simp add: augment_def)

lemma augment_latest:
  assumes "latestScreening (recentScreenings now screenings) = Some latest"
  shows "augment now screenings current =
           (if severityBand_s latest = Some ''severe'' \<or> severityBand_s latest = Some ''moderate-severe''
            then ''high''
            else if severityBand_s latest = Some ''moderate'' \<and> current = ''low'' then ''moderate''
            else current)"
proof -
  have "recentScreenings now screenings \<noteq> []"
    using assms latestScreening_Nil by force
  then show ?thesis using assms
    by (simp add: augment_def Let_def SEVERITY_HIGH_def SEVERITY_MODERATE_def SEVERITY_LOW_def)
qed

lemma augment_cases:
  "augment now screenings current = current
   \<or> augment now screenings current = ''high''
   \<or> (augment now screenings current = ''moderate'' \<and> current = ''low'')"
proof (cases "latestScreening (recentScreenings now screenings)")
  case None
  then show ?thesis by (simp add: augment_def Let_def)
next
  case (Some latest)
  show ?thesis unfolding augment_latest[OF Some] by simp
qed

lemma augment_range:
  assumes "current \<in> {''low'', ''moderate'', ''high''}"
  shows "augment now screenings current \<in> {''low'', ''moderate'', ''high''}"
  using augment_cases[of now screenings current] assms by auto

lemma augment_rank:
  assumes "current \<in> {''low'', ''moderate'', ''high''}"
  shows "severity_rank current \<le> severity_rank (augment now screenings current)"
  using augment_cases[of now screenings current] assms
  by (auto simp: severity_rank_def)

subsection \<open>Crisis, no match, tie-break, history\<close>

lemma crisis_entry: "map_of CATEGORY_TRIGGERS ''CRISIS'' = Some crisisKeywords"
  by code_simp

lemma crisis_entry_in: "(''CRISIS'', crisisKeywords) \<in> set CATEGORY_TRIGGERS"
  using crisis_entry by (rule map_of_SomeD)

text \<open>
  Claim C1 (crisis short-circuit). If the text contains a keyword of the CRISIS list as a
  substring up to the case of letters, then whatever the history and the screenings,
  \<open>classify\<close> returns category CRISIS, severity crisis, crisis true and confidence 1.
\<close>

theorem crisis_short_circuit:
  assumes "k \<in> set crisisKeywords"
    and "text = pre @ mid @ post"
    and "toLowerCase mid = toLowerCase k"
  shows "classify now text history screenings =
           \<lparr>category = ''CRISIS'', severity = ''crisis'', crisis = True, confidence = 1\<rparr>"
proof -
  have "toLowerCase text = toLowerCase pre @ toLowerCase k @ toLowerCase post"
    using assms(2,3) by (simp add: toLowerCase_append)
  then have "includes_s (toLowerCase text) (toLowerCase k)"
    unfolding includes_s_iff by blast
  then have "hasCrisisKeywords (toLowerCase text)"
    using assms(1) unfolding hasCrisisKeywords_iff by blast
  then show ?thesis by (rule classify_crisis)
qed

theorem crisis_short_circuit_witness:
  "''kill myself'' \<in> set crisisKeywords
   \<and> ''I WANT to Kill Myself'' = ''I WANT to '' @ ''Kill Myself'' @ []
   \<and> toLowerCase ''Kill Myself'' = toLowerCase ''kill myself''
   \<and> classify 1700000000000 ''I WANT to Kill Myself''
        [\<lparr>sender = ''USER'', text_m = ''hello'', createdAt_m = 1699999999000\<rparr>]
        [\<lparr>createdAt = Some 1699999000000, severityBand_s = Some ''minimal''\<rparr>]
      = \<lparr>category = ''CRISIS'', severity = ''crisis'', crisis = True, confidence = 1\<rparr>"
proof -
  have a: "''kill myself'' \<in> set crisisKeywords" by (simp add: crisisKeywords_eq)
  have b: "''I WANT to Kill Myself'' = ''I WANT to '' @ ''Kill Myself'' @ []" by simp
  have c: "toLowerCase ''Kill Myself'' = toLowerCase ''kill myself''" by code_simp
  show ?thesis using a b c crisis_short_circuit[OF a b c] by simp
qed

text \<open>
  Claim C6 as stated fails: the text \<open>overdose\<close> contains no keyword of a non-crisis
  category, and is classified CRISIS, not GENERAL.
\<close>

theorem no_match_counterexample:
  "\<not> contains_keyword_of ''overdose'' non_crisis_triggers
   \<and> classify 0 ''overdose'' [] []
       \<noteq> \<lparr>category = ''GENERAL'', severity = ''low'', crisis = False, confidence = 0\<rparr>"
proof -
  have "\<not> contains_keyword_of ''overdose'' non_crisis_triggers" by code_simp
  moreover have "classify 0 ''overdose'' [] []
      = \<lparr>category = ''CRISIS'', severity = ''crisis'', crisis = True, confidence = 1\<rparr>"
    by code_simp
  ultimately show ?thesis by simp
qed

lemma no_keyword_ratio_0:
  assumes "\<not> contains_keyword_of text CATEGORY_TRIGGERS"
  shows "match_ratio text c = 0"
proof (cases "map_of CATEGORY_TRIGGERS c")
  case None
  then show ?thesis by (simp add: match_ratio_def)
next
  case (Some kws)
  then have "(c, kws) \<in> set CATEGORY_TRIGGERS" by (rule map_of_SomeD)
  then have "\<forall>k\<in>set kws. \<not> includes_s (toLowerCase text) k"
    using assms by (auto simp: contains_keyword_of_def list_ex_iff)
  then have "filter (\<lambda>k. includes_s (toLowerCase text) k) kws = []"
    by (simp add: filter_empty_conv)
  then show ?thesis using Some by (simp add: match_ratio_def)
qed

lemma no_keyword_no_crisis:
  assumes "\<not> contains_keyword_of text CATEGORY_TRIGGERS"
  shows "\<not> hasCrisisKeywords (toLowerCase text)"
proof
  assume "hasCrisisKeywords (toLowerCase text)"
  then obtain k where k: "k \<in> set crisisKeywords" "includes_s (toLowerCase text) (toLowerCase k)"
    unfolding hasCrisisKeywords_iff by blast
  have "toLowerCase k = k" using keyword_lower[OF crisis_entry_in k(1)] .
  then have "includes_s (toLowerCase text) k" using k(2) by simp
  then have "contains_keyword_of text CATEGORY_TRIGGERS"
    using crisis_entry_in k(1) by (auto simp: contains_keyword_of_def list_ex_iff)
  then show False using assms by simp
qed

text \<open>
  Claim C6, amended (no-match base case). If the case-folded text contains no keyword of
  any category, the CRISIS list included, then whatever the history and the screenings,
  \<open>classify\<close> returns category GENERAL, severity low, crisis false and confidence 0.
\<close>

theorem no_match_base_case:
  assumes "\<not> contains_keyword_of text CATEGORY_TRIGGERS"
  shows "classify now text history screenings =
           \<lparr>category = ''GENERAL'', severity = ''low'', crisis = False, confidence = 0\<rparr>"
proof -
  obtain c where "bestCategory (toLowerCase text) = Some (c, match_ratio text c)"
    using bestCategory_Some by blast
  then have "bestCategory (toLowerCase text) = Some (c, 0)"
    using no_keyword_ratio_0[OF assms] by simp
  then show ?thesis
    using classify_general[OF no_keyword_no_crisis[OF assms]] by blast
qed

theorem no_match_base_case_witness:
  "\<not> contains_keyword_of [] CATEGORY_TRIGGERS
   \<and> classify 1700000000000 []
        [\<lparr>sender = ''USER'', text_m = ''I feel nervous'', createdAt_m = 1699999999000\<rparr>]
        [\<lparr>createdAt = Some 1699999000000, severityBand_s = Some ''severe''\<rparr>]
      = \<lparr>category = ''GENERAL'', severity = ''low'', crisis = False, confidence = 0\<rparr>"
proof -
  have a: "\<not> contains_keyword_of [] CATEGORY_TRIGGERS" by code_simp
  show ?thesis using a no_match_base_case[OF a] by simp
qed

text \<open>
  Claim C7 (tie-break). The category that \<open>classify\<close> selects is the first, in the order
  ANXIETY, DEPRESSION, STRESS_BURNOUT, SLEEP, ACADEMIC_STRESS, SOCIAL_ISOLATION, among
  those of greatest match ratio: if every category declared before \<open>c\<close> has a strictly
  smaller ratio and every category declared after it has no greater ratio, the best
  category is \<open>c\<close> with its ratio, and it is the category and the confidence of the result
  whenever no crisis keyword occurs and the ratio is not 0.
\<close>

theorem tie_break_first_declared:
  assumes ord: "category_order = before @ c # after"
    and lt: "\<forall>d\<in>set before. match_ratio text d < match_ratio text c"
    and le: "\<forall>d\<in>set after. match_ratio text d \<le> match_ratio text c"
  shows "bestCategory (toLowerCase text) = Some (c, match_ratio text c)
       \<and> (\<not> hasCrisisKeywords (toLowerCase text) \<and> 0 < match_ratio text c \<longrightarrow>
            category (classify now text history screenings) = c
          \<and> confidence (classify now text history screenings) = match_ratio text c)"
proof -
  let ?i = "length before"
  have ci: "category_order ! ?i = c" unfolding ord by simp
  have i: "?i < length category_order" unfolding ord by simp
  have fst: "\<forall>j<?i. match_ratio text (category_order ! j) < match_ratio text (category_order ! ?i)"
    unfolding ord using lt by (simp add: nth_append)
  have mx: "\<forall>j<length category_order.
              match_ratio text (category_order ! j) \<le> match_ratio text (category_order ! ?i)"
  proof (intro allI impI)
    fix j assume j: "j < length category_order"
    have "category_order ! j \<in> set category_order" using j by (rule nth_mem)
    moreover have "set category_order = set before \<union> {c} \<union> set after"
      unfolding ord by auto
    ultimately have "category_order ! j \<in> set before \<union> {c} \<union> set after" by simp
    then show "match_ratio text (category_order ! j) \<le> match_ratio text (category_order ! ?i)"
      using lt le ci by force
  qed
  have best: "bestCategory (toLowerCase text) = Some (c, match_ratio text c)"
    using bestCategory_first_max[OF i mx fst] ci by simp
  show ?thesis
  proof (intro conjI impI)
    show "bestCategory (toLowerCase text) = Some (c, match_ratio text c)" by (rule best)
  next
    assume a: "\<not> hasCrisisKeywords (toLowerCase text) \<and> 0 < match_ratio text c"
    then have "match_ratio text c \<noteq> 0" by simp
    then show "category (classify now text history screenings) = c"
      using classify_scored[OF _ best] a by simp
  next
    assume a: "\<not> hasCrisisKeywords (toLowerCase text) \<and> 0 < match_ratio text c"
    then have "match_ratio text c \<noteq> 0" by simp
    then show "confidence (classify now text history screenings) = match_ratio text c"
      using classify_scored[OF _ best] a by simp
  qed
qed

theorem tie_break_first_declared_witness:
  "category_order = [''ANXIETY'', ''DEPRESSION'', ''STRESS_BURNOUT'', ''SLEEP'']
                      @ ''ACADEMIC_STRESS'' # [''SOCIAL_ISOLATION'']
   \<and> list_all (\<lambda>d. match_ratio ''failing alone'' d < match_ratio ''failing alone'' ''ACADEMIC_STRESS'')
        [''ANXIETY'', ''DEPRESSION'', ''STRESS_BURNOUT'', ''SLEEP'']
   \<and> match_ratio ''failing alone'' ''SOCIAL_ISOLATION'' = match_ratio ''failing alone'' ''ACADEMIC_STRESS''
   \<and> \<not> hasCrisisKeywords (toLowerCase ''failing alone'')
   \<and> 0 < match_ratio ''failing alone'' ''ACADEMIC_STRESS''
   \<and> category (classify 0 ''failing alone'' [] []) = ''ACADEMIC_STRESS''
   \<and> confidence (classify 0 ''failing alone'' [] []) = 1 / 12"
proof -
  have o: "category_order = [''ANXIETY'', ''DEPRESSION'', ''STRESS_BURNOUT'', ''SLEEP'']
                      @ ''ACADEMIC_STRESS'' # [''SOCIAL_ISOLATION'']"
    by (simp add: category_order_def)
  have r: "match_ratio ''failing alone'' ''ANXIETY'' = 0"
    "match_ratio ''failing alone'' ''DEPRESSION'' = 0"
    "match_ratio ''failing alone'' ''STRESS_BURNOUT'' = 0"
    "match_ratio ''failing alone'' ''SLEEP'' = 0"
    "match_ratio ''failing alone'' ''ACADEMIC_STRESS'' = 1 / 12"
    "match_ratio ''failing alone'' ''SOCIAL_ISOLATION'' = 1 / 12"
    by code_simp+
  have n: "\<not> hasCrisisKeywords (toLowerCase ''failing alone'')" by code_simp
  have lt: "\<forall>d\<in>set [''ANXIETY'', ''DEPRESSION'', ''STRESS_BURNOUT'', ''SLEEP''].
              match_ratio ''failing alone'' d < match_ratio ''failing alone'' ''ACADEMIC_STRESS''"
    using r by simp
  have le: "\<forall>d\<in>set [''SOCIAL_ISOLATION''].
              match_ratio ''failing alone'' d \<le> match_ratio ''failing alone'' ''ACADEMIC_STRESS''"
    using r by simp
  show ?thesis
    using tie_break_first_declared[OF o lt le, of 0 "[]" "[]"] o n r by simp
qed

text \<open>
  Claim C9 (determinism, history noninterference). With the current time fixed,
  \<open>classify\<close> is a function of the text and the screenings alone: any two histories give
  the same classification.
\<close>

theorem history_noninterference:
  "classify now text h1 screenings = classify now text h2 screenings"
  by (simp add: classify_def)

theorem history_noninterference_witness:
  "classify 1700000000000 ''I feel nervous''
     [\<lparr>sender = ''USER'', text_m = ''I want to die'', createdAt_m = 1699999999000\<rparr>]
     [\<lparr>createdAt = Some 1699136000000, severityBand_s = Some ''moderate''\<rparr>]
   = classify 1700000000000 ''I feel nervous'' []
       [\<lparr>createdAt = Some 1699136000000, severityBand_s = Some ''moderate''\<rparr>]"
  using history_noninterference[of 1700000000000 "''I feel nervous''"
      "[\<lparr>sender = ''USER'', text_m = ''I want to die'', createdAt_m = 1699999999000\<rparr>]"
      "[\<lparr>createdAt = Some 1699136000000, severityBand_s = Some ''moderate''\<rparr>]" "[]"]
  by simp

text \<open>
  Claim C10 (crisis consistency). In every classification that \<open>classify\<close> returns, the
  crisis flag is set exactly when the category is CRISIS, and exactly when the severity
  is crisis; and a result with the crisis flag has confidence 1.
\<close>

theorem crisis_consistency:
  "(crisis (classify now text history screenings)
      = (category (classify now text history screenings) = ''CRISIS''))
   \<and> (crisis (classify now text history screenings)
      = (severity (classify now text history screenings) = ''crisis''))
   \<and> (crisis (classify now text history screenings)
        \<longrightarrow> confidence (classify now text history screenings) = 1)"
proof (cases "hasCrisisKeywords (toLowerCase text)")
  case True
  show ?thesis unfolding classify_crisis[OF True] by simp
next
  case False
  obtain c where c: "c \<in> set category_order"
      "bestCategory (toLowerCase text) = Some (c, match_ratio text c)"
    using bestCategory_Some by blast
  show ?thesis
  proof (cases "match_ratio text c = 0")
    case True
    then have "bestCategory (toLowerCase text) = Some (c, 0)" using c(2) by simp
    then have "classify now text history screenings =
           \<lparr>category = ''GENERAL'', severity = ''low'', crisis = False, confidence = 0\<rparr>"
      by (rule classify_general[OF False])
    then show ?thesis by simp
  next
    case nz: False
    let ?base = "if match_ratio text c > 6 / 10 then ''high''
                 else if match_ratio text c > 3 / 10 then ''moderate'' else ''low''"
    have "?base \<in> {''low'', ''moderate'', ''high''}" by simp
    then have "augment now screenings ?base \<in> {''low'', ''moderate'', ''high''}"
      by (rule augment_range)
    then have s: "augment now screenings ?base \<noteq> ''crisis''" by auto
    have "c \<noteq> ''CRISIS''" using c(1) CRISIS_not_scored by auto
    then show ?thesis using s by (simp add: classify_scored[OF False c(2) nz])
  qed
qed

theorem crisis_consistency_witness:
  "crisis (classify 0 ''i want to die'' [] [])
   \<and> category (classify 0 ''i want to die'' [] []) = ''CRISIS''
   \<and> severity (classify 0 ''i want to die'' [] []) = ''crisis''
   \<and> confidence (classify 0 ''i want to die'' [] []) = 1
   \<and> category (classify 0 ''I feel nervous'' [] []) = ''ANXIETY''
   \<and> \<not> crisis (classify 0 ''I feel nervous'' [] [])
   \<and> severity (classify 0 ''I feel nervous'' [] []) \<noteq> ''crisis''"
proof -
  have a: "crisis (classify 0 ''i want to die'' [] [])" by code_simp
  have b: "category (classify 0 ''I feel nervous'' [] []) = ''ANXIETY''" by code_simp
  have c: "category (classify 0 ''i want to die'' [] []) = ''CRISIS''"
    "severity (classify 0 ''i want to die'' [] []) = ''crisis''"
    "confidence (classify 0 ''i want to die'' [] []) = 1"
    using a crisis_consistency[of 0 "''i want to die''" "[]" "[]"] by auto
  have d: "\<not> crisis (classify 0 ''I feel nervous'' [] [])"
    "severity (classify 0 ''I feel nervous'' [] []) \<noteq> ''crisis''"
    using b crisis_consistency[of 0 "''I feel nervous''" "[]" "[]"] by auto
  show ?thesis using a b c d by simp
qed

subsection \<open>Screening augmentation\<close>

lemma scored_classification:
  assumes "category (classify now text history []) \<in> set category_order"
  shows "\<exists>c r. \<not> hasCrisisKeywords (toLowerCase text)
           \<and> bestCategory (toLowerCase text) = Some (c, r) \<and> r \<noteq> 0"
proof -
  have nc: "\<not> hasCrisisKeywords (toLowerCase text)"
  proof
    assume "hasCrisisKeywords (toLowerCase text)"
    then have "category (classify now text history []) = ''CRISIS''"
      by (simp add: classify_crisis)
    then show False using assms CRISIS_not_scored by simp
  qed
  obtain c where c: "bestCategory (toLowerCase text) = Some (c, match_ratio text c)"
    using bestCategory_Some by blast
  have "match_ratio text c \<noteq> 0"
  proof
    assume "match_ratio text c = 0"
    then have "bestCategory (toLowerCase text) = Some (c, 0)" using c by simp
    then have "category (classify now text history []) = ''GENERAL''"
      by (simp add: classify_general[OF nc])
    then show False using assms GENERAL_not_scored by simp
  qed
  then show ?thesis using nc c by blast
qed

lemma augment_Nil: "augment now [] current = current"
  by (simp add: augment_def recentScreenings_def)

text \<open>
  Claim C5 (screening augmentation). For a text classified into one of the six scored
  categories, only the screenings created no more than 60 days (to the millisecond)
  before now count. If there is none, the result is that without screenings. Otherwise
  one of them of latest creation time decides: a band severe or moderate-severe makes
  the severity high; a band moderate makes a keyword-derived low severity moderate; any
  other band leaves the keyword-derived severity. The severity is never below the
  keyword-derived one in the order low, moderate, high, and category, confidence and
  crisis flag are those of the result without screenings.
\<close>

theorem screening_augmentation:
  assumes scored: "category (classify now text history []) \<in> set category_order"
  shows "(filter (created_within_60_days now) screenings = [] \<longrightarrow>
            classify now text history screenings = classify now text history [])
       \<and> (filter (created_within_60_days now) screenings \<noteq> [] \<longrightarrow>
            (\<exists>latest t. latest \<in> set (filter (created_within_60_days now) screenings)
               \<and> createdAt latest = Some t
               \<and> (\<forall>s\<in>set (filter (created_within_60_days now) screenings).
                     \<forall>u. createdAt s = Some u \<longrightarrow> u \<le> t)
               \<and> severity (classify now text history screenings) =
                   (if severityBand_s latest = Some ''severe''
                       \<or> severityBand_s latest = Some ''moderate-severe''
                    then ''high''
                    else if severityBand_s latest = Some ''moderate''
                            \<and> severity (classify now text history []) = ''low''
                    then ''moderate''
                    else severity (classify now text history []))))
       \<and> severity_rank (severity (classify now text history []))
            \<le> severity_rank (severity (classify now text history screenings))
       \<and> category (classify now text history screenings) = category (classify now text history [])
       \<and> confidence (classify now text history screenings) = confidence (classify now text history [])
       \<and> crisis (classify now text history screenings) = crisis (classify now text history [])"
proof -
  obtain c r where nc: "\<not> hasCrisisKeywords (toLowerCase text)"
      and best: "bestCategory (toLowerCase text) = Some (c, r)" and nz: "r \<noteq> 0"
    using scored_classification[OF scored] by blast
  let ?base = "if r > 6 / 10 then ''high'' else if r > 3 / 10 then ''moderate'' else ''low''"
  let ?recent = "filter (created_within_60_days now) screenings"
  have full: "classify now text history screenings =
      \<lparr>category = c, severity = augment now screenings ?base, crisis = False, confidence = r\<rparr>"
    by (rule classify_scored[OF nc best nz])
  have none: "classify now text history [] =
      \<lparr>category = c, severity = ?base, crisis = False, confidence = r\<rparr>"
    using classify_scored[OF nc best nz, of now history "[]"] by (simp only: augment_Nil)
  have base: "severity (classify now text history []) = ?base" using none by simp
  have rng: "?base \<in> {''low'', ''moderate'', ''high''}" by simp
  have p1: "?recent = [] \<longrightarrow> classify now text history screenings = classify now text history []"
  proof
    assume "?recent = []"
    then have "augment now screenings ?base = ?base"
      by (simp add: augment_no_recent recentScreenings_eq)
    then show "classify now text history screenings = classify now text history []"
      using full none by simp
  qed
  have p2: "?recent \<noteq> [] \<longrightarrow>
            (\<exists>latest t. latest \<in> set ?recent
               \<and> createdAt latest = Some t
               \<and> (\<forall>s\<in>set ?recent. \<forall>u. createdAt s = Some u \<longrightarrow> u \<le> t)
               \<and> severity (classify now text history screenings) =
                   (if severityBand_s latest = Some ''severe''
                       \<or> severityBand_s latest = Some ''moderate-severe''
                    then ''high''
                    else if severityBand_s latest = Some ''moderate''
                            \<and> severity (classify now text history []) = ''low''
                    then ''moderate''
                    else severity (classify now text history [])))"
  proof
    assume ne: "?recent \<noteq> []"
    have dated: "\<forall>s\<in>set ?recent. \<exists>t. createdAt s = Some t"
      using recent_has_date[of _ now screenings] by (simp add: recentScreenings_eq)
    obtain latest t where l: "latestScreening ?recent = Some latest" "latest \<in> set ?recent"
        "createdAt latest = Some t" "\<forall>s\<in>set ?recent. \<forall>u. createdAt s = Some u \<longrightarrow> u \<le> t"
      using latestScreening_max[OF ne dated] by blast
    have "latestScreening (recentScreenings now screenings) = Some latest"
      using l(1) by (simp add: recentScreenings_eq)
    then have "augment now screenings ?base =
           (if severityBand_s latest = Some ''severe'' \<or> severityBand_s latest = Some ''moderate-severe''
            then ''high''
            else if severityBand_s latest = Some ''moderate'' \<and> ?base = ''low'' then ''moderate''
            else ?base)"
      by (rule augment_latest)
    then have "severity (classify now text history screenings) =
                   (if severityBand_s latest = Some ''severe''
                       \<or> severityBand_s latest = Some ''moderate-severe''
                    then ''high''
                    else if severityBand_s latest = Some ''moderate''
                            \<and> severity (classify now text history []) = ''low''
                    then ''moderate''
                    else severity (classify now text history []))"
      unfolding base using full by simp
    then show "\<exists>latest t. latest \<in> set ?recent
               \<and> createdAt latest = Some t
               \<and> (\<forall>s\<in>set ?recent. \<forall>u. createdAt s = Some u \<longrightarrow> u \<le> t)
               \<and> severity (classify now text history screenings) =
                   (if severityBand_s latest = Some ''severe''
                       \<or> severityBand_s latest = Some ''moderate-severe''
                    then ''high''
                    else if severityBand_s latest = Some ''moderate''
                            \<and> severity (classify now text history []) = ''low''
                    then ''moderate''
                    else severity (classify now text history []))"
      using l(2,3,4) by blast
  qed
  have p3: "severity_rank (severity (classify now text history []))
            \<le> severity_rank (severity (classify now text history screenings))"
    unfolding base using augment_rank[OF rng, of now screenings] full by simp
  have p4: "category (classify now text history screenings) = category (classify now text history [])"
    "confidence (classify now text history screenings) = confidence (classify now text history [])"
    "crisis (classify now text history screenings) = crisis (classify now text history [])"
    using full none by simp_all
  show ?thesis using p1 p2 p3 p4 by blast
qed

theorem screening_augmentation_witness:
  "category (classify 1700000000000 ''I feel nervous'' [] []) \<in> set category_order
   \<and> severity (classify 1700000000000 ''I feel nervous'' [] []) = ''low''
   \<and> severity (classify 1700000000000 ''I feel nervous'' []
        [\<lparr>createdAt = Some 1699136000000, severityBand_s = Some ''severe''\<rparr>]) = ''high''
   \<and> classify 1700000000000 ''I feel nervous'' []
        [\<lparr>createdAt = Some 1692224000000, severityBand_s = Some ''severe''\<rparr>]
      = classify 1700000000000 ''I feel nervous'' [] []
   \<and> severity (classify 1700000000000 ''I feel nervous'' []
        [\<lparr>createdAt = Some 1694816000000, severityBand_s = Some ''severe''\<rparr>]) = ''high''
   \<and> classify 1700000000000 ''I feel nervous'' []
        [\<lparr>createdAt = Some 1694815999999, severityBand_s = Some ''severe''\<rparr>]
      = classify 1700000000000 ''I feel nervous'' [] []"
proof -
  have base: "classify 1700000000000 ''I feel nervous'' [] []
      = \<lparr>category = ''ANXIETY'', severity = ''low'', crisis = False, confidence = 1 / 17\<rparr>"
    by code_simp
  have sc: "category (classify 1700000000000 ''I feel nervous'' [] []) \<in> set category_order"
    unfolding base by (simp add: category_order_def)
  have lo: "severity (classify 1700000000000 ''I feel nervous'' [] []) = ''low''"
    unfolding base by simp
  have d10: "severity (classify 1700000000000 ''I feel nervous'' []
        [\<lparr>createdAt = Some 1699136000000, severityBand_s = Some ''severe''\<rparr>]) = ''high''"
    using screening_augmentation[OF sc,
        of "[\<lparr>createdAt = Some 1699136000000, severityBand_s = Some ''severe''\<rparr>]"]
    by (simp add: created_within_60_days_def)
  have d90: "classify 1700000000000 ''I feel nervous'' []
        [\<lparr>createdAt = Some 1692224000000, severityBand_s = Some ''severe''\<rparr>]
      = classify 1700000000000 ''I feel nervous'' [] []"
    using screening_augmentation[OF sc,
        of "[\<lparr>createdAt = Some 1692224000000, severityBand_s = Some ''severe''\<rparr>]"]
    by (simp add: created_within_60_days_def)
  have d60: "severity (classify 1700000000000 ''I feel nervous'' []
        [\<lparr>createdAt = Some 1694816000000, severityBand_s = Some ''severe''\<rparr>]) = ''high''"
    using screening_augmentation[OF sc,
        of "[\<lparr>createdAt = Some 1694816000000, severityBand_s = Some ''severe''\<rparr>]"]
    by (simp add: created_within_60_days_def)
  have d61: "classify 1700000000000 ''I feel nervous'' []
        [\<lparr>createdAt = Some 1694815999999, severityBand_s = Some ''severe''\<rparr>]
      = classify 1700000000000 ''I feel nervous'' [] []"
    using screening_augmentation[OF sc,
        of "[\<lparr>createdAt = Some 1694815999999, severityBand_s = Some ''severe''\<rparr>]"]
    by (simp add: created_within_60_days_def)
  show ?thesis using sc lo d10 d90 d60 d61 by simp
qed

subsection \<open>Malformed screening records\<close>

lemma classify_cong_augment:
  assumes "\<And>current. augment now s1 current = augment now s2 current"
  shows "classify now text history s1 = classify now text history s2"
proof -
  have "augment now s1 = augment now s2" using assms by (rule ext)
  then show ?thesis unfolding classify_def by (simp only:)
qed

lemma augment_cong_recent:
  assumes "recentScreenings now s1 = recentScreenings now s2"
  shows "augment now s1 current = augment now s2 current"
  by (simp add: augment_def assms)

lemma recent_of_dated:
  "recentScreenings now (filter (\<lambda>s. createdAt s \<noteq> None) screenings) = recentScreenings now screenings"
proof -
  have "\<And>s. (createdAt s \<noteq> None \<and> created_within_60_days now s) = created_within_60_days now s"
    by (auto simp: created_within_60_days_def split: option.splits)
  then show ?thesis by (simp add: recentScreenings_eq)
qed

lemma latestScreening_None: "latestScreening recent = None \<Longrightarrow> recent = []"
proof -
  assume "latestScreening recent = None"
  then have "sort_by byCreatedAtDesc recent = []"
    by (simp add: latestScreening_def split: list.splits)
  then have "set recent = {}" using set_sort_by[of byCreatedAtDesc recent] by simp
  then show ?thesis by simp
qed

lemma recentScreenings_filter:
  "recentScreenings now (filter P screenings) = filter P (recentScreenings now screenings)"
  by (simp add: recentScreenings_eq conj_commute)

text \<open>Taking other records away leaves the selected latest record selected.\<close>

lemma latestScreening_filter:
  assumes dated: "\<forall>s\<in>set recent. \<exists>t. createdAt s = Some t"
    and l: "latestScreening recent = Some l" and keep: "P l"
  shows "latestScreening (filter P recent) = Some l"
proof -
  let ?key = "\<lambda>s. case createdAt s of Some t \<Rightarrow> t | None \<Rightarrow> (0::int)"
  have cmp: "\<And>xs. set xs \<subseteq> set recent \<Longrightarrow>
      \<forall>x\<in>set xs. \<forall>y\<in>set xs. (byCreatedAtDesc x y \<le> 0) = (?key y \<le> ?key x)"
  proof (intro ballI)
    fix xs x y assume "set xs \<subseteq> set recent" "x \<in> set xs" "y \<in> set xs"
    then obtain tx ty where "createdAt x = Some tx" "createdAt y = Some ty"
      using dated by blast
    then show "(byCreatedAtDesc x y \<le> 0) = (?key y \<le> ?key x)"
      by (simp add: byCreatedAtDesc_def)
  qed
  have ne: "recent \<noteq> []" using l latestScreening_Nil by force
  obtain pre h post rest where d: "recent = pre @ h # post"
      "sort_by byCreatedAtDesc recent = h # rest"
      "\<forall>y\<in>set pre. ?key y < ?key h" "\<forall>y\<in>set recent. ?key y \<le> ?key h"
    using sort_by_head[OF cmp[of recent] ne] by blast
  have hl: "h = l" using d(2) l by (simp add: latestScreening_def)
  let ?xs = "filter P recent"
  let ?i = "length (filter P pre)"
  have xs: "?xs = filter P pre @ l # filter P post" using d(1) hl keep by simp
  have sub: "set ?xs \<subseteq> set recent" by auto
  have i: "?i < length ?xs" unfolding xs by simp
  have at: "?xs ! ?i = l" unfolding xs by simp
  have mx: "\<forall>j<length ?xs. ?key (?xs ! j) \<le> ?key (?xs ! ?i)"
  proof (intro allI impI)
    fix j assume "j < length ?xs"
    then have "?xs ! j \<in> set ?xs" by (rule nth_mem)
    then have "?xs ! j \<in> set recent" using sub by blast
    then show "?key (?xs ! j) \<le> ?key (?xs ! ?i)" using d(4) hl at by simp
  qed
  have fst: "\<forall>j<?i. ?key (?xs ! j) < ?key (?xs ! ?i)"
  proof (intro allI impI)
    fix j assume j: "j < ?i"
    have m: "filter P pre ! j \<in> set (filter P pre)" using j by (rule nth_mem)
    have "?xs ! j = filter P pre ! j" unfolding xs using j by (simp add: nth_append)
    then have "?xs ! j \<in> set pre" using m by simp
    then show "?key (?xs ! j) < ?key (?xs ! ?i)" using d(3) hl at by simp
  qed
  obtain rest' where "sort_by byCreatedAtDesc ?xs = (?xs ! ?i) # rest'"
    using sort_by_head_nth[OF cmp[OF sub] i mx fst] by blast
  then show ?thesis using at by (simp add: latestScreening_def)
qed

text \<open>A record that is not the selected latest one contributes nothing.\<close>

lemma classify_without_other:
  assumes "latestScreening (recentScreenings now screenings) \<noteq> Some s"
  shows "classify now text history (filter (\<lambda>x. x \<noteq> s) screenings)
           = classify now text history screenings"
proof (rule classify_cong_augment)
  fix current
  let ?rest = "filter (\<lambda>x. x \<noteq> s) screenings"
  show "augment now ?rest current = augment now screenings current"
  proof (cases "latestScreening (recentScreenings now screenings)")
    case None
    then have e: "recentScreenings now screenings = []" by (rule latestScreening_None)
    then have "recentScreenings now ?rest = []" by (simp add: recentScreenings_filter)
    then show ?thesis using e by (simp add: augment_no_recent)
  next
    case (Some l)
    then have "l \<noteq> s" using assms by simp
    moreover have "\<forall>x\<in>set (recentScreenings now screenings). \<exists>t. createdAt x = Some t"
      using recent_has_date by blast
    ultimately have "latestScreening (filter (\<lambda>x. x \<noteq> s) (recentScreenings now screenings)) = Some l"
      using latestScreening_filter[OF _ Some, of "\<lambda>x. x \<noteq> s"] by simp
    then have "latestScreening (recentScreenings now ?rest) = Some l"
      by (simp add: recentScreenings_filter)
    then show ?thesis by (simp add: augment_latest[OF Some] augment_latest)
  qed
qed

subsection \<open>Entries that are not objects\<close>

lemma records_Record: "records (map Record screenings) = screenings"
  by (induction screenings) simp_all

lemma no_Nullish_Record: "\<not> list_ex (\<lambda>e. e = Nullish) (map Record screenings)"
  by (auto simp: list_ex_iff)

lemma augment_js_Record:
  "augment_js now (map Record screenings) current = Inr (augment now screenings current)"
  by (simp add: augment_js_def recentScreenings_js_def no_Nullish_Record records_Record
        augment_def Let_def)

lemma classify_js_Record:
  "classify_js now text history (map Record screenings) = Inr (classify now text history screenings)"
  by (simp add: classify_js_def classify_def augment_js_Record Let_def
        split: option.splits prod.splits)

text \<open>
  On an entry that is null or undefined \<open>classify\<close> throws, whenever the text is one that
  gets as far as the filter.
\<close>

lemma classify_js_Nullish:
  assumes "Nullish \<in> set entries"
    and "category (classify now text history []) \<in> set category_order"
  shows "classify_js now text history entries = Inl TypeError"
proof -
  obtain c r where nc: "\<not> hasCrisisKeywords (toLowerCase text)"
      and best: "bestCategory (toLowerCase text) = Some (c, r)" and nz: "r \<noteq> 0"
    using scored_classification[OF assms(2)] by blast
  have "list_ex (\<lambda>e. e = Nullish) entries" using assms(1) by (auto simp: list_ex_iff)
  then have "\<And>current. augment_js now entries current = Inl TypeError"
    by (simp add: augment_js_def recentScreenings_js_def)
  then show ?thesis using nc best nz by (simp add: classify_js_def Let_def)
qed

text \<open>
  Claim C8 as stated fails: a record without a severityBand that is the latest within
  the 60 days is not skipped. It is the one consulted, so the older well-formed screening
  is not used: the result differs from that on the well-formed records alone.
\<close>

theorem malformed_screenings_counterexample:
  "classify 1700000000000 ''I feel nervous'' []
     [\<lparr>createdAt = Some 1699568000000, severityBand_s = None\<rparr>,
      \<lparr>createdAt = Some 1699136000000, severityBand_s = Some ''severe''\<rparr>]
   \<noteq> classify 1700000000000 ''I feel nervous'' []
       (filter well_formed
          [\<lparr>createdAt = Some 1699568000000, severityBand_s = None\<rparr>,
           \<lparr>createdAt = Some 1699136000000, severityBand_s = Some ''severe''\<rparr>])"
proof -
  have l: "classify 1700000000000 ''I feel nervous'' []
     [\<lparr>createdAt = Some 1699568000000, severityBand_s = None\<rparr>,
      \<lparr>createdAt = Some 1699136000000, severityBand_s = Some ''severe''\<rparr>]
     = \<lparr>category = ''ANXIETY'', severity = ''low'', crisis = False, confidence = 1 / 17\<rparr>"
    by code_simp
  have r: "classify 1700000000000 ''I feel nervous'' []
      [\<lparr>createdAt = Some 1699136000000, severityBand_s = Some ''severe''\<rparr>]
     = \<lparr>category = ''ANXIETY'', severity = ''high'', crisis = False, confidence = 1 / 17\<rparr>"
    by code_simp
  show ?thesis unfolding l by (simp add: well_formed_def r)
qed

text \<open>
  Claim C8, amended (malformed screening records). On every list of screening records,
  whichever of createdAt and severityBand they lack, \<open>classify\<close> does not throw: it
  returns a classification. Records whose createdAt is missing or does not parse
  contribute nothing to the augmentation: the result is that on the list without them.
  So does a record without a severityBand that is not the one selected as the latest
  within the 60 days (as any record that is not the selected one): the result is that
  without it. A record without a severityBand that is the latest within the 60 days is
  not skipped: the severity is then not augmented, and the result is that without
  screenings.
\<close>

theorem malformed_screenings:
  "classify_js now text history (map Record screenings)
     = Inr (classify now text history screenings)
   \<and> classify now text history screenings
     = classify now text history (filter (\<lambda>s. createdAt s \<noteq> None) screenings)
   \<and> (latestScreening (recentScreenings now screenings) \<noteq> Some s
      \<longrightarrow> classify now text history (filter (\<lambda>x. x \<noteq> s) screenings)
            = classify now text history screenings)
   \<and> (latestScreening (recentScreenings now screenings) = Some latest
        \<and> severityBand_s latest = None
      \<longrightarrow> classify now text history screenings = classify now text history [])"
proof (intro conjI impI)
  show "classify_js now text history (map Record screenings)
     = Inr (classify now text history screenings)"
    by (rule classify_js_Record)
next
  show "classify now text history screenings
     = classify now text history (filter (\<lambda>s. createdAt s \<noteq> None) screenings)"
    by (rule classify_cong_augment, rule augment_cong_recent, rule recent_of_dated[symmetric])
next
  assume "latestScreening (recentScreenings now screenings) \<noteq> Some s"
  then show "classify now text history (filter (\<lambda>x. x \<noteq> s) screenings)
            = classify now text history screenings"
    by (rule classify_without_other)
next
  assume a: "latestScreening (recentScreenings now screenings) = Some latest
        \<and> severityBand_s latest = None"
  have "\<And>current. augment now screenings current = augment now [] current"
    using a by (simp add: augment_latest augment_Nil)
  then show "classify now text history screenings = classify now text history []"
    by (rule classify_cong_augment)
qed

theorem malformed_screenings_witness:
  "classify_js 1700000000000 ''I feel nervous'' []
     [Record \<lparr>createdAt = None, severityBand_s = None\<rparr>,
      Record \<lparr>createdAt = Some 1699136000000, severityBand_s = Some ''severe''\<rparr>]
   = Inr \<lparr>category = ''ANXIETY'', severity = ''high'', crisis = False, confidence = 1 / 17\<rparr>
   \<and> classify 1700000000000 ''I feel nervous'' []
     [\<lparr>createdAt = None, severityBand_s = Some ''severe''\<rparr>,
      \<lparr>createdAt = Some 1699136000000, severityBand_s = Some ''moderate''\<rparr>]
   = classify 1700000000000 ''I feel nervous'' []
       [\<lparr>createdAt = Some 1699136000000, severityBand_s = Some ''moderate''\<rparr>]
   \<and> latestScreening (recentScreenings 1700000000000
        [\<lparr>createdAt = Some 1699136000000, severityBand_s = Some ''severe''\<rparr>,
         \<lparr>createdAt = Some 1698272000000, severityBand_s = None\<rparr>])
      \<noteq> Some \<lparr>createdAt = Some 1698272000000, severityBand_s = None\<rparr>
   \<and> classify 1700000000000 ''I feel nervous'' []
        [\<lparr>createdAt = Some 1699136000000, severityBand_s = Some ''severe''\<rparr>]
      = classify 1700000000000 ''I feel nervous'' []
          [\<lparr>createdAt = Some 1699136000000, severityBand_s = Some ''severe''\<rparr>,
           \<lparr>createdAt = Some 1698272000000, severityBand_s = None\<rparr>]
   \<and> latestScreening (recentScreenings 1700000000000
        [\<lparr>createdAt = Some 1699568000000, severityBand_s = None\<rparr>,
         \<lparr>createdAt = Some 1699136000000, severityBand_s = Some ''severe''\<rparr>])
      = Some \<lparr>createdAt = Some 1699568000000, severityBand_s = None\<rparr>
   \<and> severityBand_s \<lparr>createdAt = Some 1699568000000, severityBand_s = None\<rparr> = None
   \<and> classify 1700000000000 ''I feel nervous'' []
        [\<lparr>createdAt = Some 1699568000000, severityBand_s = None\<rparr>,
         \<lparr>createdAt = Some 1699136000000, severityBand_s = Some ''severe''\<rparr>]
      = classify 1700000000000 ''I feel nervous'' [] []"
proof -
  have v: "classify 1700000000000 ''I feel nervous'' []
     [\<lparr>createdAt = None, severityBand_s = None\<rparr>,
      \<lparr>createdAt = Some 1699136000000, severityBand_s = Some ''severe''\<rparr>]
     = \<lparr>category = ''ANXIETY'', severity = ''high'', crisis = False, confidence = 1 / 17\<rparr>"
    by code_simp
  have c1: "classify_js 1700000000000 ''I feel nervous'' []
     [Record \<lparr>createdAt = None, severityBand_s = None\<rparr>,
      Record \<lparr>createdAt = Some 1699136000000, severityBand_s = Some ''severe''\<rparr>]
   = Inr \<lparr>category = ''ANXIETY'', severity = ''high'', crisis = False, confidence = 1 / 17\<rparr>"
    using v malformed_screenings[of 1700000000000 "''I feel nervous''" "[]"
        "[\<lparr>createdAt = None, severityBand_s = None\<rparr>,
          \<lparr>createdAt = Some 1699136000000, severityBand_s = Some ''severe''\<rparr>]"]
    by simp
  have c2: "classify 1700000000000 ''I feel nervous'' []
     [\<lparr>createdAt = None, severityBand_s = Some ''severe''\<rparr>,
      \<lparr>createdAt = Some 1699136000000, severityBand_s = Some ''moderate''\<rparr>]
   = classify 1700000000000 ''I feel nervous'' []
       [\<lparr>createdAt = Some 1699136000000, severityBand_s = Some ''moderate''\<rparr>]"
    using malformed_screenings[of 1700000000000 "''I feel nervous''" "[]"
        "[\<lparr>createdAt = None, severityBand_s = Some ''severe''\<rparr>,
          \<lparr>createdAt = Some 1699136000000, severityBand_s = Some ''moderate''\<rparr>]"]
    by simp
  have n: "latestScreening (recentScreenings 1700000000000
        [\<lparr>createdAt = Some 1699136000000, severityBand_s = Some ''severe''\<rparr>,
         \<lparr>createdAt = Some 1698272000000, severityBand_s = None\<rparr>])
      = Some \<lparr>createdAt = Some 1699136000000, severityBand_s = Some ''severe''\<rparr>"
    by code_simp
  have n': "latestScreening (recentScreenings 1700000000000
        [\<lparr>createdAt = Some 1699136000000, severityBand_s = Some ''severe''\<rparr>,
         \<lparr>createdAt = Some 1698272000000, severityBand_s = None\<rparr>])
      \<noteq> Some \<lparr>createdAt = Some 1698272000000, severityBand_s = None\<rparr>"
    unfolding n by simp
  have c3: "classify 1700000000000 ''I feel nervous'' []
        [\<lparr>createdAt = Some 1699136000000, severityBand_s = Some ''severe''\<rparr>]
      = classify 1700000000000 ''I feel nervous'' []
          [\<lparr>createdAt = Some 1699136000000, severityBand_s = Some ''severe''\<rparr>,
           \<lparr>createdAt = Some 1698272000000, severityBand_s = None\<rparr>]"
    using n' malformed_screenings[of 1700000000000 "''I feel nervous''" "[]"
        "[\<lparr>createdAt = Some 1699136000000, severityBand_s = Some ''severe''\<rparr>,
          \<lparr>createdAt = Some 1698272000000, severityBand_s = None\<rparr>]"
        "\<lparr>createdAt = Some 1698272000000, severityBand_s = None\<rparr>"]
    by simp
  have l: "latestScreening (recentScreenings 1700000000000
        [\<lparr>createdAt = Some 1699568000000, severityBand_s = None\<rparr>,
         \<lparr>createdAt = Some 1699136000000, severityBand_s = Some ''severe''\<rparr>])
      = Some \<lparr>createdAt = Some 1699568000000, severityBand_s = None\<rparr>"
    by code_simp
  have c4: "classify 1700000000000 ''I feel nervous'' []
        [\<lparr>createdAt = Some 1699568000000, severityBand_s = None\<rparr>,
         \<lparr>createdAt = Some 1699136000000, severityBand_s = Some ''severe''\<rparr>]
      = classify 1700000000000 ''I feel nervous'' [] []"
    using l malformed_screenings[of 1700000000000 "''I feel nervous''" "[]"
        "[\<lparr>createdAt = Some 1699568000000, severityBand_s = None\<rparr>,
          \<lparr>createdAt = Some 1699136000000, severityBand_s = Some ''severe''\<rparr>]"
        _ "\<lparr>createdAt = Some 1699568000000, severityBand_s = None\<rparr>"]
    by simp
  show ?thesis using c1 c2 n' c3 l c4 by simp
qed

subsection \<open>buildResponse\<close>

lemma classify_outcomes:
  "classify now text history screenings
     = \<lparr>category = ''CRISIS'', severity = ''crisis'', crisis = True, confidence = 1\<rparr>
   \<or> (\<not> crisis (classify now text history screenings)
      \<and> category (classify now text history screenings) \<in> insert ''GENERAL'' (set category_order)
      \<and> severity (classify now text history screenings) \<in> {''low'', ''moderate'', ''high''})"
proof (cases "hasCrisisKeywords (toLowerCase text)")
  case True
  then show ?thesis by (simp add: classify_crisis)
next
  case False
  obtain c where c: "c \<in> set category_order"
      "bestCategory (toLowerCase text) = Some (c, match_ratio text c)"
    using bestCategory_Some by blast
  show ?thesis
  proof (cases "match_ratio text c = 0")
    case True
    then have "bestCategory (toLowerCase text) = Some (c, 0)" using c(2) by simp
    then have "classify now text history screenings =
           \<lparr>category = ''GENERAL'', severity = ''low'', crisis = False, confidence = 0\<rparr>"
      by (rule classify_general[OF False])
    then show ?thesis by simp
  next
    case nz: False
    let ?base = "if match_ratio text c > 6 / 10 then ''high''
                 else if match_ratio text c > 3 / 10 then ''moderate'' else ''low''"
    have "?base \<in> {''low'', ''moderate'', ''high''}" by simp
    then have "augment now screenings ?base \<in> {''low'', ''moderate'', ''high''}"
      by (rule augment_range)
    then show ?thesis using c(1) by (simp add: classify_scored[OF False c(2) nz])
  qed
qed

lemma crisis_template_en:
  "\<exists>t. map_of RESPONSE_TEMPLATES_en ''CRISIS'' = Some (Crisis t)"
  by (simp add: RESPONSE_TEMPLATES_en_def)

lemma topic_templates_en:
  "map_of RESPONSE_TEMPLATES_en c = Some t \<Longrightarrow> c \<noteq> ''CRISIS'' \<Longrightarrow> \<exists>tt. t = Topic tt"
  by (auto simp: RESPONSE_TEMPLATES_en_def split: if_splits)

lemma topic_templates_hi:
  "map_of RESPONSE_TEMPLATES_hi c = Some t \<Longrightarrow> \<exists>tt. t = Topic tt"
  by (auto simp: RESPONSE_TEMPLATES_hi_def split: if_splits)

lemma templates_of_language:
  "(case map_of RESPONSE_TEMPLATES language of Some t \<Rightarrow> t | None \<Rightarrow> RESPONSE_TEMPLATES_en)
     = (if language = ''hi'' then RESPONSE_TEMPLATES_hi else RESPONSE_TEMPLATES_en)"
  by (simp add: RESPONSE_TEMPLATES_def)

text \<open>
  Everywhere else \<open>buildResponse\<close> answers: on a classification that \<open>classify\<close> returns,
  unless it is a crisis and the language is \<open>hi\<close>, the bundle has a message and quick
  replies.
\<close>

lemma buildResponse_answers:
  assumes "\<not> (crisis (classify now text history screenings) \<and> language = ''hi'')"
  shows "\<exists>b. buildResponse (classify now text history screenings) language = Inr b
            \<and> message b \<noteq> [] \<and> quickReplies b \<noteq> []"
proof (cases "crisis (classify now text history screenings)")
  case True
  then have en: "language \<noteq> ''hi''" using assms by simp
  obtain t where "map_of RESPONSE_TEMPLATES_en ''CRISIS'' = Some (Crisis t)"
    using crisis_template_en by blast
  then show ?thesis using True en
    by (simp add: buildResponse_def templates_of_language)
next
  case False
  let ?T = "if language = ''hi'' then RESPONSE_TEMPLATES_hi else RESPONSE_TEMPLATES_en"
  let ?c = "category (classify now text history screenings)"
  have nc: "?c \<noteq> ''CRISIS''"
    using classify_outcomes[of now "text" history screenings] False CRISIS_not_scored by auto
  show ?thesis
  proof (cases "map_of ?T ?c")
    case None
    then show ?thesis using False
      by (simp add: buildResponse_def templates_of_language)
  next
    case (Some t)
    then obtain tt where "t = Topic tt"
      using topic_templates_en[of ?c t] topic_templates_hi[of ?c t] nc
      by (auto split: if_splits)
    then show ?thesis using False Some
      by (simp add: buildResponse_def templates_of_language Let_def)
  qed
qed

text \<open>
  Claim C2 does not hold of the code. The Hindi table has no CRISIS entry, and the
  crisis branch reads the fields of the entry without looking whether there is one: for
  a crisis classification and the language \<open>hi\<close>, \<open>buildResponse\<close> throws a TypeError.
\<close>

theorem buildResponse_crisis_hi_throws:
  "classify 0 ''I want to kill myself'' [] []
     = \<lparr>category = ''CRISIS'', severity = ''crisis'', crisis = True, confidence = 1\<rparr>
   \<and> buildResponse \<lparr>category = ''CRISIS'', severity = ''crisis'', crisis = True, confidence = 1\<rparr> ''hi''
     = Inl TypeError"
proof -
  have "classify 0 ''I want to kill myself'' [] []
     = \<lparr>category = ''CRISIS'', severity = ''crisis'', crisis = True, confidence = 1\<rparr>"
    by code_simp
  moreover have "buildResponse \<lparr>category = ''CRISIS'', severity = ''crisis'', crisis = True, confidence = 1\<rparr> ''hi''
     = Inl TypeError"
    by (simp add: buildResponse_def RESPONSE_TEMPLATES_def RESPONSE_TEMPLATES_hi_def)
  ultimately show ?thesis by simp
qed

end
